theory Spec2Isabelle
  imports Complex_Main
begin

section \<open>The night-time calculator of mfb-ingest (src/server.js)\<close>

text \<open>
  The model follows \<^verbatim>\<open>src/server.js\<close>, lines 401 to 851: the text extractor
  \<^verbatim>\<open>parseOFP\<close>, the geometry (\<^verbatim>\<open>slerpLatLon\<close>, \<^verbatim>\<open>solarAltitudeDeg\<close>), the two
  classifiers and the \<^verbatim>\<open>/ingest\<close> handler.

  JavaScript values are modelled as follows.
  \<^item> A string is a \<^typ>\<open>string\<close>; \<^verbatim>\<open>null\<close> and \<^verbatim>\<open>undefined\<close> are \<^term>\<open>None\<close>.
  \<^item> A number that can be \<^verbatim>\<open>NaN\<close> is a \<^verbatim>\<open>jsnum\<close>. Whole numbers (minutes,
    milliseconds) are \<^typ>\<open>int\<close>; the other numbers are \<^typ>\<open>real\<close>: the rounding of
    IEEE doubles is not modelled. Coordinates are finite numbers; where one of them can
    leave the range of doubles in \<^verbatim>\<open>solarAltitudeDeg\<close>, the overflow is modelled.
  \<^item> A \<^verbatim>\<open>Date\<close> is its time value, milliseconds since the epoch, or \<^verbatim>\<open>NaN\<close> for an
    Invalid Date.
\<close>

subsection \<open>Numbers and dates of the platform\<close>

datatype 'a jsnum = NaN | Num 'a

definition msPerDay :: int where "msPerDay = 86400000"
definition msPerHour :: int where "msPerHour = 3600000"
definition msPerMinute :: int where "msPerMinute = 60000"
definition msPerSecond :: int where "msPerSecond = 1000"

text \<open>ECMAScript's day number of the first day of a year, and its leap years.\<close>

definition DayFromYear :: "int \<Rightarrow> int" where
  "DayFromYear y = 365 * (y - 1970) + (y - 1969) div 4 - (y - 1901) div 100 + (y - 1601) div 400"

definition InLeapYear :: "int \<Rightarrow> bool" where
  "InLeapYear y = (y mod 4 = 0 \<and> (y mod 100 \<noteq> 0 \<or> y mod 400 = 0))"

definition monthStart :: "bool \<Rightarrow> nat \<Rightarrow> int" where
  "monthStart leap m =
     [0, 31, 59, 90, 120, 151, 181, 212, 243, 273, 304, 334] ! m + (if leap \<and> 2 \<le> m then 1 else 0)"

text \<open>\<^verbatim>\<open>MakeDay(year, month, date)\<close> for a month from 0 to 11; a date beyond the month's
  end runs into the next month.\<close>

definition MakeDay :: "int \<Rightarrow> nat \<Rightarrow> int \<Rightarrow> int" where
  "MakeDay y m dt = DayFromYear y + monthStart (InLeapYear y) m + dt - 1"

definition isDigit :: "char \<Rightarrow> bool" where
  "isDigit c = (48 \<le> (of_char c :: nat) \<and> (of_char c :: nat) \<le> 57)"

definition digitVal :: "char \<Rightarrow> nat" where
  "digitVal c = of_char c - 48"

definition natOfDigits :: "string \<Rightarrow> nat" where
  "natOfDigits s = foldl (\<lambda>n c. 10 * n + digitVal c) 0 s"

definition digitChar :: "nat \<Rightarrow> char" where
  "digitChar n = char_of (48 + n)"

fun showNat :: "nat \<Rightarrow> string" where
  "showNat n = (if n < 10 then [digitChar n] else showNat (n div 10) @ [digitChar (n mod 10)])"

declare showNat.simps [simp del]

definition padStart2 :: "string \<Rightarrow> string" where
  "padStart2 s = replicate (2 - length s) (CHR ''0'') @ s"

text \<open>
  \<^verbatim>\<open>new Date(s)\<close> for the one shape of string this program builds,
  \<^verbatim>\<open>YYYY-MM-DDTHH:mm:ssZ\<close>. ECMAScript's date-time format takes the month from 01 to 12,
  the day from 01 to 31, the hour from 00 to 24 (24 only as 24:00:00), minutes and seconds
  from 00 to 59; a string with a field out of these bounds gives an Invalid Date. A day
  within 01 to 31 that the month does not have is taken as V8 (the engine of Node) takes it,
  running into the next month. Any other string is an Invalid Date in this model.
  \<open>parseDate\<close> reads the date, as a day number, and \<open>parseTime\<close> the time of day, in
  milliseconds.
\<close>

definition parseDate :: "string \<Rightarrow> int option" where
  "parseDate s =
     (if length s = 10 \<and> list_all (\<lambda>i. isDigit (s ! i)) [0, 1, 2, 3, 5, 6, 8, 9]
         \<and> s ! 4 = CHR ''-'' \<and> s ! 7 = CHR ''-''
      then
        let y = natOfDigits (take 4 s);
            mo = natOfDigits (take 2 (drop 5 s));
            d = natOfDigits (take 2 (drop 8 s))
        in if 1 \<le> mo \<and> mo \<le> 12 \<and> 1 \<le> d \<and> d \<le> 31
           then Some (MakeDay (int y) (mo - 1) (int d))
           else None
      else None)"

definition parseTime :: "string \<Rightarrow> int option" where
  "parseTime s =
     (if length s = 9 \<and> list_all (\<lambda>i. isDigit (s ! i)) [0, 1, 3, 4, 6, 7]
         \<and> s ! 2 = CHR '':'' \<and> s ! 5 = CHR '':'' \<and> s ! 8 = CHR ''Z''
      then
        let h = natOfDigits (take 2 s);
            mi = natOfDigits (take 2 (drop 3 s));
            se = natOfDigits (take 2 (drop 6 s))
        in if (h \<le> 23 \<or> (h = 24 \<and> mi = 0 \<and> se = 0)) \<and> mi \<le> 59 \<and> se \<le> 59
           then Some (int h * msPerHour + int mi * msPerMinute + int se * msPerSecond)
           else None
      else None)"

definition DateParse :: "string \<Rightarrow> int jsnum" where
  "DateParse s =
     (if length s = 20 \<and> s ! 10 = CHR ''T''
      then (case (parseDate (take 10 s), parseTime (drop 11 s)) of
              (Some day, Some ms) \<Rightarrow> Num (day * msPerDay + ms)
            | _ \<Rightarrow> NaN)
      else NaN)"

text \<open>The getters of a \<^verbatim>\<open>Date\<close>: \<^verbatim>\<open>NaN\<close> on an Invalid Date.\<close>

definition getUTCHours :: "int jsnum \<Rightarrow> int jsnum" where
  "getUTCHours t = (case t of NaN \<Rightarrow> NaN | Num ms \<Rightarrow> Num ((ms div msPerHour) mod 24))"

definition getUTCMinutes :: "int jsnum \<Rightarrow> int jsnum" where
  "getUTCMinutes t = (case t of NaN \<Rightarrow> NaN | Num ms \<Rightarrow> Num ((ms div msPerMinute) mod 60))"

definition getUTCSeconds :: "int jsnum \<Rightarrow> int jsnum" where
  "getUTCSeconds t = (case t of NaN \<Rightarrow> NaN | Num ms \<Rightarrow> Num ((ms div msPerSecond) mod 60))"

text \<open>\<^verbatim>\<open>t.getUTCHours() * 60 + t.getUTCMinutes()\<close>, with \<^verbatim>\<open>NaN\<close> absorbing.\<close>

definition minutesOfDay :: "int jsnum \<Rightarrow> int jsnum" where
  "minutesOfDay t =
     (case (getUTCHours t, getUTCMinutes t) of
        (Num h, Num m) \<Rightarrow> Num (h * 60 + m)
      | _ \<Rightarrow> NaN)"

text \<open>\<^verbatim>\<open>t.setUTCDate(t.getUTCDate() + 1)\<close>: the same time of day on the following day
  (\<^verbatim>\<open>MakeDay\<close> runs over the end of a month).\<close>

definition addOneUTCDate :: "int jsnum \<Rightarrow> int jsnum" where
  "addOneUTCDate t = (case t of NaN \<Rightarrow> NaN | Num ms \<Rightarrow> Num (ms + msPerDay))"

subsection \<open>Clock times and the block duration\<close>

record hhmm =
  hh :: nat
  mm :: nat

definition makeUtcDate :: "string \<Rightarrow> hhmm \<Rightarrow> int jsnum" where
  "makeUtcDate isoDate t =
     DateParse (isoDate @ ''T'' @ padStart2 (showNat (hh t)) @ '':'' @ padStart2 (showNat (mm t)) @ '':00Z'')"

definition diffMinutesWithMidnightWrap :: "int jsnum \<Rightarrow> int jsnum \<Rightarrow> int jsnum" where
  "diffMinutesWithMidnightWrap t1 t2 =
     (case (minutesOfDay t1, minutesOfDay t2) of
        (Num m1, Num m2) \<Rightarrow> (let d = m2 - m1 in Num (if d < 0 then d + 1440 else d))
      | _ \<Rightarrow> NaN)"

subsection \<open>Regular expressions\<close>

text \<open>
  The patterns of \<^verbatim>\<open>parseOFP\<close> use character classes, sequences, the word boundary,
  greedy repetition of one character class, an optional part and capturing groups. A match
  is computed as the backtracking matcher of ECMAScript finds it: \<open>rmatch\<close> lists the
  states the matcher can reach from a state, in the order in which backtracking tries
  them, and \<^verbatim>\<open>text.match(re)\<close> is the first of them at the leftmost start that has one.
  A state is the position reached and the captures made so far; every group of these
  patterns is taken on every path, so the captures are numbered in the order made.
  Characters are 8 bits wide here.
\<close>

datatype re =
    Eps
  | Chr "char \<Rightarrow> bool"
  | WordB
  | Seq re re
  | Opt re
  | Rep "char \<Rightarrow> bool" nat "nat option"
  | Grp re

definition inRange :: "char \<Rightarrow> char \<Rightarrow> char \<Rightarrow> bool" where
  "inRange lo hi c = ((of_char lo :: nat) \<le> of_char c \<and> (of_char c :: nat) \<le> of_char hi)"

definition isUpper :: "char \<Rightarrow> bool" where
  "isUpper c = inRange (CHR ''A'') (CHR ''Z'') c"

definition isLower :: "char \<Rightarrow> bool" where
  "isLower c = inRange (CHR ''a'') (CHR ''z'') c"

text \<open>\<^verbatim>\<open>\\w\<close>, and \<^verbatim>\<open>\\s\<close> among the characters below 256: tab, line feed, vertical tab,
  form feed, carriage return, space and the no-break space.\<close>

definition isWordChar :: "char \<Rightarrow> bool" where
  "isWordChar c = (isUpper c \<or> isLower c \<or> isDigit c \<or> c = CHR ''_'')"

definition isSpace :: "char \<Rightarrow> bool" where
  "isSpace c = ((of_char c :: nat) \<in> {9, 10, 11, 12, 13, 32, 160})"

definition toLower :: "char \<Rightarrow> char" where
  "toLower c = (if isUpper c then char_of (of_char c + (32::nat)) else c)"

definition toUpper :: "char \<Rightarrow> char" where
  "toUpper c = (if isLower c then char_of (of_char c - (32::nat)) else c)"

definition wordBoundary :: "string \<Rightarrow> nat \<Rightarrow> bool" where
  "wordBoundary t i =
     ((0 < i \<and> i \<le> length t \<and> isWordChar (t ! (i - 1))) \<noteq> (i < length t \<and> isWordChar (t ! i)))"

fun rmatch :: "string \<Rightarrow> re \<Rightarrow> nat \<times> string list \<Rightarrow> (nat \<times> string list) list" where
  "rmatch t Eps s = [s]"
| "rmatch t (Chr p) s = (if fst s < length t \<and> p (t ! fst s) then [(Suc (fst s), snd s)] else [])"
| "rmatch t WordB s = (if wordBoundary t (fst s) then [s] else [])"
| "rmatch t (Seq r1 r2) s = concat (map (rmatch t r2) (rmatch t r1 s))"
| "rmatch t (Opt r) s = rmatch t r s @ [s]"
| "rmatch t (Rep p lo hi) s =
     (let n = length (takeWhile p (drop (fst s) t));
          m = (case hi of None \<Rightarrow> n | Some h \<Rightarrow> min h n)
      in map (\<lambda>k. (fst s + k, snd s)) (rev [lo..<Suc m]))"
| "rmatch t (Grp r) s =
     map (\<lambda>s'. (fst s', snd s' @ [take (fst s' - fst s) (drop (fst s) t)])) (rmatch t r s)"

text \<open>\<^verbatim>\<open>text.match(re)\<close> without the \<^verbatim>\<open>g\<close> flag: \<^verbatim>\<open>null\<close>, or the array of the matched
  text and the captures.\<close>

definition allMatches :: "re \<Rightarrow> string \<Rightarrow> string list list" where
  "allMatches r t =
     concat (map (\<lambda>i. map (\<lambda>s'. take (fst s' - i) (drop i t) # snd s') (rmatch t r (i, [])))
                 [0..<Suc (length t)])"

definition reMatch :: "re \<Rightarrow> string \<Rightarrow> string list option" where
  "reMatch r t = (case allMatches r t of [] \<Rightarrow> None | m # _ \<Rightarrow> Some m)"

text \<open>\<^verbatim>\<open>(text.match(re) || [null, null])[k]\<close>\<close>

definition grp :: "nat \<Rightarrow> string list option \<Rightarrow> string option" where
  "grp k m = (case m of None \<Rightarrow> None | Some gs \<Rightarrow> if k < length gs then Some (gs ! k) else None)"

text \<open>\<^verbatim>\<open>a || b\<close> on strings that may be \<^verbatim>\<open>null\<close>: the empty string is falsy too.\<close>

definition truthyStr :: "string option \<Rightarrow> bool" where
  "truthyStr a = (case a of None \<Rightarrow> False | Some s \<Rightarrow> s \<noteq> [])"

definition orElse :: "string option \<Rightarrow> string option \<Rightarrow> string option" where
  "orElse a b = (if truthyStr a then a else b)"

text \<open>Pattern text: a literal, a literal under the \<^verbatim>\<open>i\<close> flag, a sequence.\<close>

definition lit :: "string \<Rightarrow> re" where
  "lit s = foldr (\<lambda>c r. Seq (Chr (\<lambda>x. x = c)) r) s Eps"

definition litI :: "string \<Rightarrow> re" where
  "litI s = foldr (\<lambda>c r. Seq (Chr (\<lambda>x. toLower x = toLower c)) r) s Eps"

definition seqs :: "re list \<Rightarrow> re" where
  "seqs rs = foldr Seq rs Eps"

subsection \<open>The text extractor\<close>

definition trim :: "string \<Rightarrow> string" where
  "trim s = rev (dropWhile isSpace (rev (dropWhile isSpace s)))"

text \<open>\<^verbatim>\<open>.replace(/\\b([a-z])/g, (m) => m.toUpperCase())\<close>: the replaced characters are
  word characters before and after, so every boundary is the one of the original string.\<close>

definition toTitleCase :: "string \<Rightarrow> string" where
  "toTitleCase name =
     (let s = map toLower (trim name)
      in map (\<lambda>i. if wordBoundary s i \<and> isLower (s ! i) then toUpper (s ! i) else s ! i)
             [0..<length s])"

text \<open>\<^verbatim>\<open>Number(s)\<close> for a string of decimal digits with an optional fraction, the only
  strings it is applied to; \<open>natOfDigits\<close> is the same on a string of digits alone.\<close>

definition Number :: "string \<Rightarrow> real" where
  "Number s =
     (let ip = takeWhile (\<lambda>c. c \<noteq> CHR ''.'') s;
          fp = drop (Suc (length ip)) s
      in real (natOfDigits ip) + real (natOfDigits fp) / 10 ^ length fp)"

definition reZulu :: "string \<Rightarrow> re" where
  "reZulu label =
     seqs [WordB, litI label, Rep isSpace 1 None,
           Grp (Seq (Chr (inRange (CHR ''0'') (CHR ''2''))) (Chr isDigit)),
           Grp (Seq (Chr (inRange (CHR ''0'') (CHR ''5''))) (Chr isDigit)),
           Opt (litI ''Z''), WordB]"

definition parseZuluHHMM :: "string \<Rightarrow> string \<Rightarrow> hhmm option" where
  "parseZuluHHMM text label =
     (case reMatch (reZulu label) text of
        None \<Rightarrow> None
      | Some m \<Rightarrow> Some \<lparr>hh = natOfDigits (m ! 1), mm = natOfDigits (m ! 2)\<rparr>)"

record clockTimes =
  out :: "hhmm option"
  inT :: "hhmm option"
  off :: "hhmm option"
  on :: "hhmm option"

record parsed =
  flightNumber :: "string option"
  isoDate :: "string option"
  orig :: "string option"
  dest :: "string option"
  route :: "string option"
  tail :: "string option"
  block :: "real option"
  captain :: "string option"
  fo :: "string option"
  times :: clockTimes
  comments :: string

definition isColonOrSpace :: "char \<Rightarrow> bool" where
  "isColonOrSpace c = (c = CHR '':'' \<or> isSpace c)"

definition isNameChar :: "char \<Rightarrow> bool" where
  "isNameChar c = (isUpper c \<or> isSpace c \<or> c = CHR 0x27 \<or> c = CHR ''-'')"

definition reFlight :: re where
  "reFlight = seqs [WordB, lit ''CJT'', Rep isDigit 3 (Some 4), WordB]"

definition reDate1 :: re where
  "reDate1 =
     seqs [WordB, lit ''DATE'', Rep isColonOrSpace 0 None,
           Grp (seqs [Chr (inRange (CHR ''0'') (CHR ''3'')), Chr isDigit,
                      Rep isUpper 3 (Some 3), Rep isDigit 2 (Some 2)]),
           WordB]"

definition reDate2 :: re where
  "reDate2 =
     seqs [WordB,
           Grp (seqs [Rep isDigit 2 (Some 2), Rep isUpper 3 (Some 3), Rep isDigit 2 (Some 2)]),
           lit ''/'', Rep isDigit 2 (Some 2), lit ''.'', Rep isDigit 2 (Some 2), lit ''Z'', WordB]"

definition reAirport :: "string \<Rightarrow> re" where
  "reAirport marker = seqs [WordB, lit marker, Rep isSpace 1 None, Grp (Rep isUpper 4 (Some 4)), WordB]"

definition reTail :: re where
  "reTail = seqs [WordB, lit ''C-'', Rep isUpper 4 (Some 4), WordB]"

definition reBlock1 :: re where
  "reBlock1 =
     seqs [WordB, litI ''BLOCK'', Rep isColonOrSpace 1 None,
           Grp (Seq (Rep isDigit 1 (Some 2)) (Opt (Seq (lit ''.'') (Chr isDigit)))),
           WordB]"

definition reBlock2 :: re where
  "reBlock2 =
     seqs [WordB, litI ''BLOCK'', Rep isSpace 1 None,
           Grp (seqs [Rep isDigit 1 (Some 2), lit ''.'', Chr isDigit]),
           WordB]"

definition reName :: "string \<Rightarrow> re" where
  "reName marker =
     seqs [WordB, lit marker, Rep isColonOrSpace 1 None,
           Grp (Seq (Chr isUpper) (Rep isNameChar 2 None)), WordB]"

definition months :: "string \<rightharpoonup> string" where
  "months = map_of
     [(''JAN'', ''01''), (''FEB'', ''02''), (''MAR'', ''03''), (''APR'', ''04''),
      (''MAY'', ''05''), (''JUN'', ''06''), (''JUL'', ''07''), (''AUG'', ''08''),
      (''SEP'', ''09''), (''OCT'', ''10''), (''NOV'', ''11''), (''DEC'', ''12'')]"

text \<open>The block token: \<^verbatim>\<open>(m1 || [null, null])[1] || (m2 || [null, null])[1]\<close>.\<close>

definition blockToken :: "string \<Rightarrow> string option" where
  "blockToken text = orElse (grp 1 (reMatch reBlock1 text)) (grp 1 (reMatch reBlock2 text))"

text \<open>\<^verbatim>\<open>String(raw || "").replace(/\\r/g, "\\n")\<close>\<close>

definition ofpText :: "string option \<Rightarrow> string" where
  "ofpText raw = map (\<lambda>c. if c = CHR 0x0D then CHR 0x0A else c) (if truthyStr raw then the raw else [])"

definition parseOFP :: "string option \<Rightarrow> parsed" where
  "parseOFP raw =
     (let text = ofpText raw;
          flightNumber = grp 0 (reMatch reFlight text);
          dateToken = orElse (grp 1 (reMatch reDate1 text)) (grp 1 (reMatch reDate2 text));
          orig = grp 1 (reMatch (reAirport ''ORIG'') text);
          dest = grp 1 (reMatch (reAirport ''DEST'') text);
          tail = grp 0 (reMatch reTail text);
          block = (if truthyStr (blockToken text) then Some (Number (the (blockToken text))) else None);
          captainRaw = orElse (grp 1 (reMatch (reName ''CAPTAIN'') text)) None;
          foRaw = orElse (grp 1 (reMatch (reName ''FO'') text)) None;
          captain = (if truthyStr captainRaw then Some (toTitleCase (the captainRaw)) else None);
          fo = (if truthyStr foRaw then Some (toTitleCase (the foRaw)) else None);
          out = parseZuluHHMM text ''OUT'';
          inT = parseZuluHHMM text ''IN'';
          off = parseZuluHHMM text ''OFF'';
          on = parseZuluHHMM text ''ON'';
          isoDate =
            (if truthyStr dateToken then
               (let dd = take 2 (the dateToken);
                    mon = take 3 (drop 2 (the dateToken));
                    yy = take 2 (drop 5 (the dateToken))
                in if truthyStr (months mon)
                   then Some (''20'' @ yy @ ''-'' @ the (months mon) @ ''-'' @ dd)
                   else None)
             else None);
          route = (if truthyStr orig \<and> truthyStr dest then Some (the orig @ '' '' @ the dest) else None);
          commentsParts =
            (if truthyStr flightNumber then [the flightNumber] else [])
            @ (if truthyStr orig \<and> truthyStr dest then [the orig @ ''-'' @ the dest] else [])
      in \<lparr>flightNumber = flightNumber, isoDate = isoDate, orig = orig, dest = dest,
          route = route, tail = tail, block = block, captain = captain, fo = fo,
          times = \<lparr>out = out, inT = inT, off = off, on = on\<rparr>,
          comments = (case commentsParts of [] \<Rightarrow> [] | p # ps \<Rightarrow> foldl (\<lambda>a b. a @ '' '' @ b) p ps)\<rparr>)"

subsection \<open>Great-circle interpolation and the altitude of the sun\<close>

definition clamp :: "real \<Rightarrow> real \<Rightarrow> real \<Rightarrow> real" where
  "clamp x a b = max a (min b x)"

definition deg2rad :: "real \<Rightarrow> real" where
  "deg2rad d = (d * pi) / 180"

definition rad2deg :: "real \<Rightarrow> real" where
  "rad2deg r = (r * 180) / pi"

text \<open>\<^verbatim>\<open>Math.atan2(y, x)\<close>, \<^verbatim>\<open>Math.round(x)\<close> and the remainder \<^verbatim>\<open>x % y\<close>, which
  truncates the quotient towards zero.\<close>

definition atan2 :: "real \<Rightarrow> real \<Rightarrow> real" where
  "atan2 y x =
     (if 0 < x then arctan (y / x)
      else if x < 0 then (if 0 \<le> y then arctan (y / x) + pi else arctan (y / x) - pi)
      else if 0 < y then pi / 2
      else if y < 0 then - pi / 2
      else 0)"

definition MathRound :: "real \<Rightarrow> real" where
  "MathRound x = of_int \<lfloor>x + 1 / 2\<rfloor>"

definition jsRem :: "real \<Rightarrow> real \<Rightarrow> real" where
  "jsRem x y = x - y * of_int (if 0 \<le> x / y then \<lfloor>x / y\<rfloor> else \<lceil>x / y\<rceil>)"

record coord =
  lat :: real
  lon :: real

text \<open>
  \<^verbatim>\<open>slerpLatLon\<close> in exact arithmetic. Doubles differ where the result hangs on rounding:
  for two equal points the dot product is exactly 1 here and the first branch is taken,
  while in doubles it can round to the next number below 1, whose \<^verbatim>\<open>Math.acos\<close> is about
  1.5e-8, and the second branch is taken; for opposite points \<open>sin \<omega>\<close> is 0 here and a
  small number in doubles.
\<close>

definition slerpLatLon :: "real \<Rightarrow> real \<Rightarrow> real \<Rightarrow> real \<Rightarrow> real \<Rightarrow> coord" where
  "slerpLatLon lat1 lon1 lat2 lon2 f =
     (let \<phi>1 = deg2rad lat1; lam1 = deg2rad lon1;
          \<phi>2 = deg2rad lat2; lam2 = deg2rad lon2;
          x1 = cos \<phi>1 * cos lam1;
          y1 = cos \<phi>1 * sin lam1;
          z1 = sin \<phi>1;
          x2 = cos \<phi>2 * cos lam2;
          y2 = cos \<phi>2 * sin lam2;
          z2 = sin \<phi>2;
          dot = clamp (x1 * x2 + y1 * y2 + z1 * z2) (- 1) 1;
          \<omega> = arccos dot
      in if \<omega> < 1 / 10 ^ 10 then \<lparr>lat = lat1, lon = lon1\<rparr>
         else
           (let sin\<omega> = sin \<omega>;
                a = sin ((1 - f) * \<omega>) / sin\<omega>;
                b = sin (f * \<omega>) / sin\<omega>;
                x = a * x1 + b * x2;
                y = a * y1 + b * y2;
                z = a * z1 + b * z2;
                \<phi> = atan2 z (sqrt (x * x + y * y));
                lam = atan2 y x
            in \<lparr>lat = rad2deg \<phi>, lon = rad2deg lam\<rparr>))"

text \<open>The cosine of the zenith angle, as \<^verbatim>\<open>solarAltitudeDeg\<close> computes it for a valid
  time value \<open>ms\<close>.\<close>

definition cosZenith :: "int \<Rightarrow> real \<Rightarrow> real \<Rightarrow> real" where
  "cosZenith ms latDeg lonDeg =
     (let jd = real_of_int ms / 86400000 + 2440587.5;
          T = (jd - 2451545.0) / 36525.0;
          L0a = 280.46646 + T * (36000.76983 + 0.0003032 * T);
          L0 = jsRem (jsRem L0a 360 + 360) 360;
          M = 357.52911 + T * (35999.05029 - 0.0001537 * T);
          e = 0.016708634 - T * (0.000042037 + 0.0000001267 * T);
          Mrad = deg2rad M;
          C = sin Mrad * (1.914602 - T * (0.004817 + 0.000014 * T))
              + sin (2 * Mrad) * (0.019993 - 0.000101 * T)
              + sin (3 * Mrad) * 0.000289;
          trueLong = L0 + C;
          \<Omega> = 125.04 - 1934.136 * T;
          lam = trueLong - 0.00569 - 0.00478 * sin (deg2rad \<Omega>);
          \<epsilon>0 = 23 + (26 + (21.448 - T * (46.815 + T * (0.00059 - T * 0.001813))) / 60) / 60;
          \<epsilon> = \<epsilon>0 + 0.00256 * cos (deg2rad \<Omega>);
          \<delta> = rad2deg (arcsin (sin (deg2rad \<epsilon>) * sin (deg2rad lam)));
          y = tan (deg2rad \<epsilon> / 2);
          y2 = y * y;
          L0rad = deg2rad L0;
          sin2L0 = sin (2 * L0rad);
          sinM = sin Mrad;
          cos2L0 = cos (2 * L0rad);
          sin4L0 = sin (4 * L0rad);
          sin2M = sin (2 * Mrad);
          Etime = 4 * rad2deg (y2 * sin2L0 - 2 * e * sinM + 4 * e * y2 * sinM * cos2L0
                               - 0.5 * y2 * y2 * sin4L0 - 1.25 * e * e * sin2M);
          utcMinutes = real_of_int ((ms div msPerHour) mod 24) * 60
                       + real_of_int ((ms div msPerMinute) mod 60)
                       + real_of_int ((ms div msPerSecond) mod 60) / 60;
          trueSolarTime = jsRem (utcMinutes + Etime + 4 * lonDeg) 1440;
          ha = (if trueSolarTime / 4 < 0 then trueSolarTime / 4 + 180 else trueSolarTime / 4 - 180);
          latRad = deg2rad latDeg;
          \<delta>Rad = deg2rad \<delta>;
          haRad = deg2rad ha
      in sin latRad * sin \<delta>Rad + cos latRad * cos \<delta>Rad * cos haRad)"

text \<open>
  The end of \<^verbatim>\<open>solarAltitudeDeg\<close>: the altitude from the number \<open>c\<close> that the
  cosine-of-zenith expression yields. In doubles that number carries the rounding of the
  expression, so it is taken as any number here.
\<close>

definition altitudeOfCosZenith :: "real \<Rightarrow> real" where
  "altitudeOfCosZenith c =
     (let zenith = rad2deg (arccos (clamp c (- 1) 1));
          altitude = 90 - zenith
      in altitude)"

text \<open>
  The two places where a finite coordinate leaves the range of doubles: \<^verbatim>\<open>latDeg * Math.PI\<close>
  in \<^verbatim>\<open>deg2rad\<close> and \<^verbatim>\<open>4 * lonDeg\<close>. A product whose magnitude reaches
  \<open>2 ^ 1024 - 2 ^ 970\<close> (the largest double plus half a unit in the last place) is
  \<^verbatim>\<open>Infinity\<close>; \<^verbatim>\<open>Math.sin\<close>, \<^verbatim>\<open>Math.cos\<close> and \<^verbatim>\<open>%\<close> make \<^verbatim>\<open>NaN\<close> of it.
  \<open>piDouble\<close> is the double \<^verbatim>\<open>Math.PI\<close>. The time value of a valid \<^verbatim>\<open>Date\<close> is too small
  to overflow anywhere. On an Invalid Date every getter gives \<^verbatim>\<open>NaN\<close>. In both cases the
  arithmetic, \<^verbatim>\<open>Math.max\<close>, \<^verbatim>\<open>Math.min\<close> and \<^verbatim>\<open>Math.acos\<close> hand the \<^verbatim>\<open>NaN\<close> on.
\<close>

definition overflows :: "real \<Rightarrow> bool" where
  "overflows x = (2 ^ 1024 - 2 ^ 970 \<le> \<bar>x\<bar>)"

definition piDouble :: real where
  "piDouble = 884279719003555 / 2 ^ 48"

definition solarAltitudeDeg :: "int jsnum \<Rightarrow> real \<Rightarrow> real \<Rightarrow> real jsnum" where
  "solarAltitudeDeg dateUTC latDeg lonDeg =
     (case dateUTC of
        NaN \<Rightarrow> NaN
      | Num ms \<Rightarrow>
          if overflows (latDeg * piDouble) \<or> overflows (4 * lonDeg) then NaN
          else Num (altitudeOfCosZenith (cosZenith ms latDeg lonDeg)))"

text \<open>\<^verbatim>\<open>alt < twilightAltDeg\<close>: false when \<open>alt\<close> is \<^verbatim>\<open>NaN\<close>.\<close>

definition below :: "real jsnum \<Rightarrow> real \<Rightarrow> bool" where
  "below alt twilightAltDeg = (case alt of NaN \<Rightarrow> False | Num a \<Rightarrow> a < twilightAltDeg)"

subsection \<open>Night time of the block and the landing\<close>

record nightResult =
  nightHours :: "real option"
  reason :: string

text \<open>The body of the sampling loop at minute \<open>i\<close>, and the loop: the tally of the
  minutes whose altitude is below the threshold.\<close>

definition sampleAlt :: "coord \<Rightarrow> coord \<Rightarrow> int jsnum \<Rightarrow> int \<Rightarrow> nat \<Rightarrow> real jsnum" where
  "sampleAlt a b tOut totalMin i =
     (let f = (if totalMin = 1 then 0 else real i / real_of_int (totalMin - 1));
          p = slerpLatLon (lat a) (lon a) (lat b) (lon b) f;
          ti = (case tOut of NaN \<Rightarrow> NaN | Num ms \<Rightarrow> Num (ms + int i * 60000))
      in solarAltitudeDeg ti (lat p) (lon p))"

definition nightMinLoop :: "coord \<Rightarrow> coord \<Rightarrow> int jsnum \<Rightarrow> int \<Rightarrow> real \<Rightarrow> nat" where
  "nightMinLoop a b tOut totalMin twilightAltDeg =
     fold (\<lambda>i nightMin. if below (sampleAlt a b tOut totalMin i) twilightAltDeg
                         then nightMin + 1 else nightMin)
          [0..<nat totalMin] 0"

definition computeNightHours_BlockInterval ::
  "(string \<rightharpoonup> coord) \<Rightarrow> parsed \<Rightarrow> real \<Rightarrow> nightResult" where
  "computeNightHours_BlockInterval AIRPORTS p twilightAltDeg =
     (if \<not> truthyStr (isoDate p) \<or> \<not> truthyStr (orig p) \<or> \<not> truthyStr (dest p)
         \<or> out (times p) = None \<or> inT (times p) = None
      then \<lparr>nightHours = None, reason = ''Missing OUT/IN or route/date''\<rparr>
      else
        (case (AIRPORTS (the (orig p)), AIRPORTS (the (dest p))) of
           (None, _) \<Rightarrow> \<lparr>nightHours = None, reason = ''Missing airport coords for '' @ the (orig p)\<rparr>
         | (Some a, None) \<Rightarrow> \<lparr>nightHours = None, reason = ''Missing airport coords for '' @ the (dest p)\<rparr>
         | (Some a, Some b) \<Rightarrow>
             (let tOut = makeUtcDate (the (isoDate p)) (the (out (times p)));
                  tIn = makeUtcDate (the (isoDate p)) (the (inT (times p)))
              in case diffMinutesWithMidnightWrap tOut tIn of
                   NaN \<Rightarrow> \<lparr>nightHours = Some (MathRound ((0 / 60) * 10) / 10), reason = ''ok''\<rparr>
                 | Num totalMin \<Rightarrow>
                     if totalMin \<le> 0
                     then \<lparr>nightHours = Some 0, reason = ''Non-positive block minutes''\<rparr>
                     else
                       (let nightMin = nightMinLoop a b tOut totalMin twilightAltDeg
                        in \<lparr>nightHours = Some (MathRound ((real nightMin / 60) * 10) / 10),
                            reason = ''ok''\<rparr>))))"

text \<open>The instant \<^verbatim>\<open>tLand\<close> that \<^verbatim>\<open>computeLandingDayNight\<close> classifies: built from the date
  and the landing clock time, and moved to the next day when an OUT time exists and the
  landing's minute of the day is less than OUT's (a comparison with \<^verbatim>\<open>NaN\<close> is false).\<close>

definition lessNum :: "int jsnum \<Rightarrow> int jsnum \<Rightarrow> bool" where
  "lessNum x y = (case (x, y) of (Num a, Num b) \<Rightarrow> a < b | _ \<Rightarrow> False)"

definition landingInstant :: "parsed \<Rightarrow> hhmm \<Rightarrow> int jsnum" where
  "landingInstant p landingHHMM =
     (let tLand = makeUtcDate (the (isoDate p)) landingHHMM
      in case out (times p) of
           None \<Rightarrow> tLand
         | Some outHHMM \<Rightarrow>
             (let tOut = makeUtcDate (the (isoDate p)) outHHMM;
                  outMin = minutesOfDay tOut;
                  landMin = minutesOfDay tLand
              in if lessNum landMin outMin then addOneUTCDate tLand else tLand))"

record landingResult =
  isNightLanding :: "bool option"
  reasonL :: string
  sunAltDeg :: "real jsnum option"

definition computeLandingDayNight ::
  "(string \<rightharpoonup> coord) \<Rightarrow> parsed \<Rightarrow> real \<Rightarrow> landingResult" where
  "computeLandingDayNight AIRPORTS p twilightAltDeg =
     (if \<not> truthyStr (isoDate p) \<or> \<not> truthyStr (dest p)
      then \<lparr>isNightLanding = None, reasonL = ''Missing date/dest'', sunAltDeg = None\<rparr>
      else
        (case AIRPORTS (the (dest p)) of
           None \<Rightarrow> \<lparr>isNightLanding = None, reasonL = ''Missing airport coords for '' @ the (dest p),
                    sunAltDeg = None\<rparr>
         | Some destCoord \<Rightarrow>
             (case (case on (times p) of Some t \<Rightarrow> Some t | None \<Rightarrow> inT (times p)) of
                None \<Rightarrow> \<lparr>isNightLanding = None, reasonL = ''Missing ON/IN time'', sunAltDeg = None\<rparr>
              | Some landingHHMM \<Rightarrow>
                  (let alt = solarAltitudeDeg (landingInstant p landingHHMM)
                                              (lat destCoord) (lon destCoord)
                   in \<lparr>isNightLanding = Some (below alt twilightAltDeg), reasonL = ''ok'',
                       sunAltDeg = Some alt\<rparr>))))"

subsection \<open>Logbook values and the request handler\<close>

text \<open>
  \<^verbatim>\<open>createPendingFlight\<close> posts a SOAP envelope to the logbook service. The text of the
  envelope is not part of the model; the outcome of the \<^verbatim>\<open>fetch\<close> is a parameter: the
  message of a rejection, or the reply with its \<^verbatim>\<open>ok\<close> flag, status and body. A thrown
  \<^verbatim>\<open>Error\<close> is \<^term>\<open>Inl\<close> of its message.
\<close>

record computed =
  approaches :: nat
  landings :: nat
  fullStopDay :: nat
  fullStopNight :: nat
  xc :: real
  night :: real
  imc :: real
  nightReason :: string
  landingReason :: string
  landingSunAltDeg :: "real jsnum option"

record httpReply =
  ok :: bool
  status :: nat
  body :: string

record created =
  soapSnippet :: string
  computed :: computed

text \<open>\<^verbatim>\<open>!parsed.block\<close> is true for \<^verbatim>\<open>null\<close> and for the number 0.\<close>

definition truthyNum :: "real option \<Rightarrow> bool" where
  "truthyNum x = (case x of None \<Rightarrow> False | Some v \<Rightarrow> v \<noteq> 0)"

definition createPendingFlight ::
  "(string \<rightharpoonup> coord) \<Rightarrow> string + httpReply \<Rightarrow> parsed \<Rightarrow> string option \<Rightarrow> string + created" where
  "createPendingFlight AIRPORTS fetchReply p pfMode =
     (if \<not> truthyStr (isoDate p) then Inl ''Missing date''
      else if \<not> truthyStr (tail p) then Inl ''Missing tail (aircraft)''
      else if \<not> truthyStr (route p) then Inl ''Missing route''
      else if \<not> truthyNum (block p) then Inl ''Missing block time''
      else
        (let blk = the (block p);
             nightRes = computeNightHours_BlockInterval AIRPORTS p (- 6);
             landRes = computeLandingDayNight AIRPORTS p (- 6);
             c = \<lparr>approaches = 1, landings = 1,
                  fullStopDay = (if isNightLanding landRes = Some False then 1 else 0),
                  fullStopNight = (if isNightLanding landRes = Some True then 1 else 0),
                  xc = blk,
                  night = (case nightHours nightRes of None \<Rightarrow> 0 | Some h \<Rightarrow> h),
                  imc = max (MathRound ((blk - 0.1) * 10) / 10) 0,
                  nightReason = reason nightRes,
                  landingReason = reasonL landRes,
                  landingSunAltDeg = sunAltDeg landRes\<rparr>
         in case fetchReply of
              Inl msg \<Rightarrow> Inl msg
            | Inr res \<Rightarrow>
                if \<not> ok res
                then Inl (''MyFlightbook HTTP '' @ showNat (status res) @ '': '' @ take 800 (body res))
                else Inr \<lparr>soapSnippet = take 300 (body res), computed = c\<rparr>))"

datatype response =
    MissingRawText
  | ParserMissingFields "string list" parsed
  | MissingAirportCoords "string list" parsed
  | PendingFlightCreated string parsed computed string
  | ServerError string

text \<open>The list \<^verbatim>\<open>missing\<close> that the handler builds.\<close>

definition missingFields :: "parsed \<Rightarrow> string list" where
  "missingFields p =
     (if \<not> truthyStr (isoDate p) then [''date''] else [])
     @ (if \<not> truthyStr (tail p) then [''tail''] else [])
     @ (if \<not> truthyStr (route p) then [''route''] else [])
     @ (if \<not> truthyNum (block p) then [''block''] else [])
     @ (if \<not> truthyStr (orig p) then [''orig''] else [])
     @ (if \<not> truthyStr (dest p) then [''dest''] else [])
     @ (if out (times p) = None then [''OUT''] else [])
     @ (if inT (times p) = None then [''IN''] else [])"

text \<open>The handler of \<^verbatim>\<open>POST /ingest\<close>: status 400, 422, 422, 200 and 500 in the order of
  the constructors of \<open>response\<close>.\<close>

definition ingest ::
  "(string \<rightharpoonup> coord) \<Rightarrow> string + httpReply \<Rightarrow> string option \<Rightarrow> string option \<Rightarrow> response" where
  "ingest AIRPORTS fetchReply raw pfMode =
     (if \<not> truthyStr raw then MissingRawText
      else
        (let p = parseOFP raw;
             missing = missingFields p
         in if missing \<noteq> [] then ParserMissingFields missing p
            else if AIRPORTS (the (orig p)) = None \<or> AIRPORTS (the (dest p)) = None
            then MissingAirportCoords (filter (\<lambda>c. AIRPORTS c = None) [the (orig p), the (dest p)]) p
            else
              (case createPendingFlight AIRPORTS fetchReply p pfMode of
                 Inl msg \<Rightarrow> ServerError msg
               | Inr result \<Rightarrow>
                   PendingFlightCreated (if pfMode = Some ''PM'' then ''PM'' else ''PF'') p
                                        (computed result) (soapSnippet result))))"

subsection \<open>Example data\<close>

text \<open>Two airports, and the record parsed from a flight plan of 1 January 2024 from CYYZ
  to CYOW with the clock times OUT, ON (optional) and IN.\<close>

definition airportsEx :: "string \<rightharpoonup> coord" where
  "airportsEx = [''CYYZ'' \<mapsto> \<lparr>lat = 43.6772, lon = - 79.6306\<rparr>,
                 ''CYOW'' \<mapsto> \<lparr>lat = 45.3225, lon = - 75.6692\<rparr>]"

definition flightEx :: "hhmm \<Rightarrow> hhmm option \<Rightarrow> hhmm \<Rightarrow> parsed" where
  "flightEx tOut tOn tIn =
     \<lparr>flightNumber = None, isoDate = Some ''2024-01-01'', orig = Some ''CYYZ'', dest = Some ''CYOW'',
      route = Some ''CYYZ CYOW'', tail = Some ''C-ABCD'', block = Some 1.5, captain = None, fo = None,
      times = \<lparr>out = Some tOut, inT = Some tIn, off = None, on = tOn\<rparr>,
      comments = ''CYYZ-CYOW''\<rparr>"

section \<open>Properties\<close>

subsection \<open>Dates and the block duration\<close>

lemma showNat_nonempty: "1 \<le> length (showNat n)"
  by (subst showNat.simps) simp

lemma showNat_small: "n < 10 \<Longrightarrow> showNat n = [digitChar n]"
  by (subst showNat.simps) simp

lemma showNat_two: "10 \<le> n \<Longrightarrow> n < 100 \<Longrightarrow> showNat n = [digitChar (n div 10), digitChar (n mod 10)]"
  by (subst showNat.simps) (simp add: showNat_small)

lemma showNat_long: "100 \<le> n \<Longrightarrow> 3 \<le> length (showNat n)"
proof -
  assume h: "100 \<le> n"
  have "showNat n = showNat (n div 10) @ [digitChar (n mod 10)]"
    using h by (subst showNat.simps) simp
  moreover have k: "\<not> n div 10 < 10" using h by arith
  then have "showNat (n div 10) = showNat (n div 10 div 10) @ [digitChar (n div 10 mod 10)]"
    using showNat.simps [of "n div 10"] by simp
  moreover have "1 \<le> length (showNat (n div 10 div 10))" by (rule showNat_nonempty)
  ultimately show ?thesis by simp
qed

lemma char_of_48: "char_of (48::nat) = CHR ''0''"
  by code_simp

lemma padStart2_small: "n < 100 \<Longrightarrow> padStart2 (showNat n) = [digitChar (n div 10), digitChar (n mod 10)]"
  by (cases "n < 10") (simp_all add: padStart2_def showNat_small showNat_two digitChar_def char_of_48)

lemma padStart2_length: "2 \<le> length (padStart2 (showNat n))"
  using showNat_nonempty [of n] by (simp add: padStart2_def)

lemma padStart2_long: "100 \<le> n \<Longrightarrow> 3 \<le> length (padStart2 (showNat n))"
  using showNat_long [of n] by (simp add: padStart2_def)

lemma digitVal_digitChar: "k < 10 \<Longrightarrow> digitVal (digitChar k) = k"
  by (simp add: digitVal_def digitChar_def)

lemma isDigit_digitChar: "k < 10 \<Longrightarrow> isDigit (digitChar k)"
  by (simp add: isDigit_def digitChar_def)

lemma natOfDigits_pair: "n < 100 \<Longrightarrow> natOfDigits [digitChar (n div 10), digitChar (n mod 10)] = n"
  by (simp add: natOfDigits_def digitVal_digitChar)

lemma makeUtcDate_shape:
  assumes v: "makeUtcDate ds t = Num a"
  shows "length ds = 10 \<and> hh t < 100 \<and> mm t < 100"
proof -
  let ?P1 = "padStart2 (showNat (hh t))" and ?P2 = "padStart2 (showNat (mm t))"
  let ?s = "ds @ ''T'' @ ?P1 @ '':'' @ ?P2 @ '':00Z''"
  from v have len: "length ?s = 20" and d: "parseDate (take 10 ?s) \<noteq> None"
    by (auto simp: makeUtcDate_def DateParse_def split: if_splits option.splits)
  have p1: "2 \<le> length ?P1" and p2: "2 \<le> length ?P2" by (rule padStart2_length)+
  from len p1 p2 have le: "length ds \<le> 10" by simp
  have "\<not> length ds < 10"
  proof
    assume lt: "length ds < 10"
    then have T: "take 10 ?s ! length ds = CHR ''T''" using len by (simp add: nth_append)
    from d have dg: "list_all (\<lambda>i. isDigit (take 10 ?s ! i)) [0, 1, 2, 3, 5, 6, 8, 9]"
      and d4: "take 10 ?s ! 4 = CHR ''-''" and d7: "take 10 ?s ! 7 = CHR ''-''"
      by (auto simp: parseDate_def split: if_splits)
    have nT: "\<not> isDigit (CHR ''T'')" by (simp add: isDigit_def)
    from lt consider "length ds = 0" | "length ds = 1" | "length ds = 2" | "length ds = 3"
      | "length ds = 4" | "length ds = 5" | "length ds = 6" | "length ds = 7"
      | "length ds = 8" | "length ds = 9" by atomize_elim arith
    then show False
      using T dg d4 d7 nT by cases (simp_all del: take_append nth_take)
  qed
  with le have l10: "length ds = 10" by simp
  with len p1 p2 have q: "length ?P1 = 2" "length ?P2 = 2" by simp_all
  have "\<not> 100 \<le> hh t" using padStart2_long [of "hh t"] q(1) by auto
  moreover have "\<not> 100 \<le> mm t" using padStart2_long [of "mm t"] q(2) by auto
  ultimately show ?thesis using l10 by simp
qed

lemma take_drop_app10:
  "length ds = 10 \<Longrightarrow> take 10 (ds @ xs) = ds \<and> drop 11 (ds @ c # xs) = xs"
  by simp

lemma parseTime_pair:
  assumes "h < 100" "m < 100"
  shows "parseTime (padStart2 (showNat h) @ '':'' @ padStart2 (showNat m) @ '':00Z'') =
     (if (h \<le> 23 \<or> (h = 24 \<and> m = 0)) \<and> m \<le> 59
      then Some (int h * msPerHour + int m * msPerMinute) else None)"
proof -
  have d: "h div 10 < 10" "h mod 10 < 10" "m div 10 < 10" "m mod 10 < 10" using assms by simp_all
  have z: "isDigit (CHR ''0'')" "natOfDigits ''00'' = 0"
    by (simp_all add: isDigit_def natOfDigits_def digitVal_def)
  show ?thesis
    using assms d
    by (simp add: parseTime_def padStart2_small isDigit_digitChar natOfDigits_pair z Let_def)
qed

lemma makeUtcDate_eq:
  assumes "length ds = 10" "hh t < 100" "mm t < 100"
  shows "makeUtcDate ds t =
     (case parseDate ds of
        None \<Rightarrow> NaN
      | Some day \<Rightarrow>
          if (hh t \<le> 23 \<or> (hh t = 24 \<and> mm t = 0)) \<and> mm t \<le> 59
          then Num (day * msPerDay + (int (hh t) * msPerHour + int (mm t) * msPerMinute))
          else NaN)"
proof -
  let ?tm = "padStart2 (showNat (hh t)) @ '':'' @ padStart2 (showNat (mm t)) @ '':00Z''"
  have s: "ds @ ''T'' @ ?tm = ds @ CHR ''T'' # ?tm" by simp
  have l: "length (ds @ CHR ''T'' # ?tm) = 20"
    using assms by (simp add: padStart2_small)
  have T: "(ds @ CHR ''T'' # ?tm) ! 10 = CHR ''T''" using assms(1) by (simp add: nth_append)
  have td: "take 10 (ds @ CHR ''T'' # ?tm) = ds" "drop 11 (ds @ CHR ''T'' # ?tm) = ?tm"
    using assms(1) by simp_all
  show ?thesis
    unfolding makeUtcDate_def DateParse_def s
    by (simp only: l T td parseTime_pair [OF assms(2,3)] simp_thms if_True)
       (simp split: option.splits)
qed

lemma makeUtcDate_Num:
  assumes "makeUtcDate ds t = Num a"
  shows "\<exists>day. parseDate ds = Some day
           \<and> a = day * msPerDay + (int (hh t) * msPerHour + int (mm t) * msPerMinute)
           \<and> (hh t \<le> 23 \<or> (hh t = 24 \<and> mm t = 0)) \<and> mm t \<le> 59"
proof -
  from makeUtcDate_shape [OF assms] have sh: "length ds = 10" "hh t < 100" "mm t < 100" by simp_all
  from assms show ?thesis
    unfolding makeUtcDate_eq [OF sh] by (auto split: option.splits if_splits)
qed

lemma minutesOfDay_clock:
  assumes "h \<le> 23 \<or> (h = 24 \<and> m = 0)" "m \<le> 59"
  shows "minutesOfDay (Num (day * msPerDay + (int h * msPerHour + int m * msPerMinute)))
           = Num ((int h * 60 + int m) mod 1440)"
proof -
  let ?ms = "day * msPerDay + (int h * msPerHour + int m * msPerMinute)"
  have a: "?ms = (day * 24 + int h) * 3600000 + int m * 60000"
    by (simp add: msPerDay_def msPerHour_def msPerMinute_def algebra_simps)
  have b: "?ms = (day * 1440 + int h * 60 + int m) * 60000"
    by (simp add: msPerDay_def msPerHour_def msPerMinute_def algebra_simps)
  have m0: "int m * 60000 < 3600000" "0 \<le> int m * 60000" using assms(2) by simp_all
  have hd: "?ms div msPerHour = day * 24 + int h"
    unfolding a using m0 by (simp add: div_pos_pos_trivial msPerHour_def)
  have md: "?ms div msPerMinute = day * 1440 + int h * 60 + int m"
    unfolding b by (simp add: msPerMinute_def)
  have hm: "(day * 24 + int h) mod 24 = int h mod 24" by (simp add: mod_simps)
  have mmod: "(day * 1440 + int h * 60 + int m) mod 60 = int m"
  proof -
    have "(day * 1440 + int h * 60 + int m) = int m + 60 * (day * 24 + int h)" by simp
    then show ?thesis using assms(2) by (simp only: mod_mult_self2) simp
  qed
  have e: "int h mod 24 * 60 + int m = (int h * 60 + int m) mod 1440"
    using assms by (elim disjE conjE) simp_all
  show ?thesis
    unfolding minutesOfDay_def getUTCHours_def getUTCMinutes_def
    by (simp only: jsnum.case prod.case hd md hm mmod e)
qed

lemma parseDate_length: "parseDate ds = Some day \<Longrightarrow> length ds = 10"
  by (simp add: parseDate_def split: if_splits)

lemma makeUtcDate_valid:
  assumes "parseDate ds = Some day" and "hh t \<le> 23" and "mm t \<le> 59"
  shows "makeUtcDate ds t = Num (day * msPerDay + (int (hh t) * msPerHour + int (mm t) * msPerMinute))"
  using assms makeUtcDate_eq [of ds t] parseDate_length [OF assms(1)] by simp

lemma wrap_mod:
  fixes c1 c2 :: int
  shows "(let d = c2 mod 1440 - c1 mod 1440 in if d < 0 then d + 1440 else d) = (c2 - c1) mod 1440"
proof -
  let ?x = "c2 mod 1440" and ?y = "c1 mod 1440"
  have r: "0 \<le> ?x" "?x < 1440" "0 \<le> ?y" "?y < 1440" by simp_all
  have e: "(c2 - c1) mod 1440 = (?x - ?y) mod 1440" by (simp add: mod_diff_eq)
  show ?thesis
  proof (cases "?x - ?y < 0")
    case True
    then have "(?x - ?y) mod 1440 = (?x - ?y + 1440) mod 1440" by simp
    also have "\<dots> = ?x - ?y + 1440" using True r by (intro mod_pos_pos_trivial) linarith+
    finally show ?thesis using True e by (simp add: Let_def)
  next
    case False
    then have "(?x - ?y) mod 1440 = ?x - ?y" using r by (intro mod_pos_pos_trivial) linarith+
    then show ?thesis using False e by (simp add: Let_def)
  qed
qed

lemma minutesOfDay_makeUtcDate:
  assumes "makeUtcDate ds t = Num a"
  shows "minutesOfDay (makeUtcDate ds t) = Num ((int (hh t) * 60 + int (mm t)) mod 1440)"
proof -
  from makeUtcDate_Num [OF assms] obtain day where
    a: "a = day * msPerDay + (int (hh t) * msPerHour + int (mm t) * msPerMinute)"
    and b: "hh t \<le> 23 \<or> (hh t = 24 \<and> mm t = 0)" "mm t \<le> 59" by blast
  show ?thesis unfolding assms a by (rule minutesOfDay_clock [OF b])
qed

text \<open>
  Claim C1, amended. When the OUT and IN clock times both give a valid \<^verbatim>\<open>Date\<close> on the
  flight's date (an hour up to 23, or 24:00, on a date that parses), the block duration is
  (IN - OUT) modulo 1440 and is not negative; OUT 2350 and IN 0010 give 20 minutes.
\<close>

theorem block_duration_mod_1440:
  assumes "makeUtcDate ds tOut \<noteq> NaN" and "makeUtcDate ds tIn \<noteq> NaN"
  shows "diffMinutesWithMidnightWrap (makeUtcDate ds tOut) (makeUtcDate ds tIn)
           = Num ((int (hh tIn * 60 + mm tIn) - int (hh tOut * 60 + mm tOut)) mod 1440)
         \<and> 0 \<le> (int (hh tIn * 60 + mm tIn) - int (hh tOut * 60 + mm tOut)) mod 1440"
proof -
  from assms obtain a b where ab: "makeUtcDate ds tOut = Num a" "makeUtcDate ds tIn = Num b"
    by (cases "makeUtcDate ds tOut"; cases "makeUtcDate ds tIn") auto
  have "diffMinutesWithMidnightWrap (makeUtcDate ds tOut) (makeUtcDate ds tIn)
          = Num (let d = (int (hh tIn) * 60 + int (mm tIn)) mod 1440
                         - (int (hh tOut) * 60 + int (mm tOut)) mod 1440
                 in if d < 0 then d + 1440 else d)"
    unfolding diffMinutesWithMidnightWrap_def
      minutesOfDay_makeUtcDate [OF ab(1)] minutesOfDay_makeUtcDate [OF ab(2)]
    by (simp add: Let_def)
  then show ?thesis by (simp only: wrap_mod) simp
qed

lemma parseOFP_times:
  "times (parseOFP raw) =
     \<lparr>out = parseZuluHHMM (ofpText raw) ''OUT'', inT = parseZuluHHMM (ofpText raw) ''IN'',
      off = parseZuluHHMM (ofpText raw) ''OFF'', on = parseZuluHHMM (ofpText raw) ''ON''\<rparr>"
  by (simp add: parseOFP_def Let_def)

lemma parseOFP_block:
  "block (parseOFP raw) =
     (if truthyStr (blockToken (ofpText raw)) then Some (Number (the (blockToken (ofpText raw)))) else None)"
  by (simp add: parseOFP_def Let_def)

lemma date_2350: "makeUtcDate ''2024-01-01'' \<lparr>hh = 23, mm = 50\<rparr> = Num 1704153000000"
  by code_simp

lemma date_0010: "makeUtcDate ''2024-01-01'' \<lparr>hh = 0, mm = 10\<rparr> = Num 1704067800000"
  by code_simp

lemma date_2930: "makeUtcDate ''2024-01-01'' \<lparr>hh = 29, mm = 30\<rparr> = NaN"
  by code_simp

theorem block_duration_mod_1440_witness:
  "makeUtcDate ''2024-01-01'' \<lparr>hh = 23, mm = 50\<rparr> \<noteq> NaN
   \<and> makeUtcDate ''2024-01-01'' \<lparr>hh = 0, mm = 10\<rparr> \<noteq> NaN
   \<and> diffMinutesWithMidnightWrap (makeUtcDate ''2024-01-01'' \<lparr>hh = 23, mm = 50\<rparr>)
        (makeUtcDate ''2024-01-01'' \<lparr>hh = 0, mm = 10\<rparr>) = Num 20"
proof -
  have h1: "makeUtcDate ''2024-01-01'' \<lparr>hh = 23, mm = 50\<rparr> \<noteq> NaN" by (simp add: date_2350)
  have h2: "makeUtcDate ''2024-01-01'' \<lparr>hh = 0, mm = 10\<rparr> \<noteq> NaN" by (simp add: date_0010)
  show ?thesis
    using block_duration_mod_1440 [OF h1 h2] h1 h2 by simp
qed

text \<open>
  Claim C1 as stated fails for a parsed hour from 24 to 29: \<^verbatim>\<open>OUT 2930Z\<close> is parsed to
  hour 29, the \<^verbatim>\<open>Date\<close> built from it is invalid, and the duration is \<^verbatim>\<open>NaN\<close>.
\<close>

theorem block_duration_hour_29_counterexample:
  "parseZuluHHMM ''OUT 2930Z IN 0010Z'' ''OUT'' = Some \<lparr>hh = 29, mm = 30\<rparr>
   \<and> parseZuluHHMM ''OUT 2930Z IN 0010Z'' ''IN'' = Some \<lparr>hh = 0, mm = 10\<rparr>
   \<and> diffMinutesWithMidnightWrap (makeUtcDate ''2024-01-01'' \<lparr>hh = 29, mm = 30\<rparr>)
        (makeUtcDate ''2024-01-01'' \<lparr>hh = 0, mm = 10\<rparr>) = NaN
   \<and> diffMinutesWithMidnightWrap (makeUtcDate ''2024-01-01'' \<lparr>hh = 29, mm = 30\<rparr>)
        (makeUtcDate ''2024-01-01'' \<lparr>hh = 0, mm = 10\<rparr>)
      \<noteq> Num ((int (0 * 60 + 10) - int (29 * 60 + 30)) mod 1440)"
proof -
  have a: "parseZuluHHMM ''OUT 2930Z IN 0010Z'' ''OUT'' = Some \<lparr>hh = 29, mm = 30\<rparr>" by code_simp
  have b: "parseZuluHHMM ''OUT 2930Z IN 0010Z'' ''IN'' = Some \<lparr>hh = 0, mm = 10\<rparr>" by code_simp
  have c: "diffMinutesWithMidnightWrap NaN (makeUtcDate ''2024-01-01'' \<lparr>hh = 0, mm = 10\<rparr>) = NaN"
    by (simp add: diffMinutesWithMidnightWrap_def minutesOfDay_def getUTCHours_def getUTCMinutes_def)
  show ?thesis using a b c by (simp add: date_2930)
qed

subsection \<open>The clock-time extractor\<close>

lemma rmatch_litI_caps: "x \<in> set (rmatch t (litI l) s) \<Longrightarrow> snd x = snd s"
  by (induction l arbitrary: s) (auto simp: litI_def split: if_splits)

lemma rmatch_Rep_caps: "x \<in> set (rmatch t (Rep p lo hi) s) \<Longrightarrow> snd x = snd s"
  by (auto simp: Let_def)

lemma take2_drop: "Suc j < length t \<Longrightarrow> take 2 (drop j t) = [t ! j, t ! Suc j]"
proof -
  assume h: "Suc j < length t"
  then have "drop j t = t ! j # t ! Suc j # drop (Suc (Suc j)) t"
    by (simp add: Cons_nth_drop_Suc Suc_lessD)
  then show ?thesis by (simp add: numeral_2_eq_2)
qed

lemma rmatch_Grp2:
  "x \<in> set (rmatch t (Grp (Seq (Chr p) (Chr q))) s) \<Longrightarrow>
   \<exists>a b. p a \<and> q b \<and> snd x = snd s @ [[a, b]]"
  by (auto simp: take2_drop split: if_splits)

lemma digit_pair_bound:
  "inRange (CHR ''0'') (CHR ''2'') a \<Longrightarrow> isDigit b \<Longrightarrow> natOfDigits [a, b] \<le> 29"
  by (simp add: inRange_def isDigit_def natOfDigits_def digitVal_def) arith

lemma digit_pair_bound5:
  "inRange (CHR ''0'') (CHR ''5'') a \<Longrightarrow> isDigit b \<Longrightarrow> natOfDigits [a, b] \<le> 59"
  by (simp add: inRange_def isDigit_def natOfDigits_def digitVal_def) arith

lemma allMatches_reZulu:
  assumes "m \<in> set (allMatches (reZulu label) t)"
  shows "\<exists>a b c d. inRange (CHR ''0'') (CHR ''2'') a \<and> isDigit b
            \<and> inRange (CHR ''0'') (CHR ''5'') c \<and> isDigit d
            \<and> m ! 1 = [a, b] \<and> m ! 2 = [c, d]"
proof -
  from assms obtain i s0 s1 s2 s3 s4 s5 s6 where
    s0: "s0 \<in> set (rmatch t WordB (i, []))" and
    s1: "s1 \<in> set (rmatch t (litI label) s0)" and
    s2: "s2 \<in> set (rmatch t (Rep isSpace 1 None) s1)" and
    s3: "s3 \<in> set (rmatch t (Grp (Seq (Chr (inRange (CHR ''0'') (CHR ''2''))) (Chr isDigit))) s2)" and
    s4: "s4 \<in> set (rmatch t (Grp (Seq (Chr (inRange (CHR ''0'') (CHR ''5''))) (Chr isDigit))) s3)" and
    s5: "s5 \<in> set (rmatch t (Opt (litI ''Z'')) s4)" and
    s6: "s6 \<in> set (rmatch t WordB s5)" and
    m: "m = take (fst s6 - i) (drop i t) # snd s6"
    unfolding allMatches_def reZulu_def seqs_def
    by (auto simp del: rmatch.simps(2,3,5,6,7))
  from s0 have c0: "snd s0 = []" by (simp split: if_splits)
  from s1 c0 have c1: "snd s1 = []" by (simp add: rmatch_litI_caps)
  from rmatch_Rep_caps [OF s2] c1 have c2: "snd s2 = []" by simp
  from rmatch_Grp2 [OF s3] c2 obtain a b where
    ab: "inRange (CHR ''0'') (CHR ''2'') a" "isDigit b" "snd s3 = [[a, b]]" by auto
  from rmatch_Grp2 [OF s4] ab obtain c d where
    cd: "inRange (CHR ''0'') (CHR ''5'') c" "isDigit d" "snd s4 = [[a, b], [c, d]]" by auto
  from s5 have "s5 \<in> set (rmatch t (litI ''Z'') s4) \<or> s5 = s4" by (simp add: disj_commute)
  then have c5: "snd s5 = snd s4" using rmatch_litI_caps by blast
  from s6 have c6: "snd s6 = snd s5" by (simp split: if_splits)
  have "m ! 1 = [a, b]" "m ! 2 = [c, d]" using m cd(3) c5 c6 by simp_all
  with ab cd show ?thesis by blast
qed

lemma reMatch_in_allMatches: "reMatch r t = Some m \<Longrightarrow> m \<in> set (allMatches r t)"
  by (auto simp: reMatch_def split: list.splits)

text \<open>
  Claim C10. Whatever the text and the label (OUT, OFF, ON, IN), a clock time that
  \<^verbatim>\<open>parseZuluHHMM\<close> returns has its minute in 0..59 and its hour in 0..29, and no less
  than that holds: on \<^verbatim>\<open>OUT 2930Z\<close> the hour returned is 29.
\<close>

theorem parseZuluHHMM_range:
  "(label \<in> set [''OUT'', ''OFF'', ''ON'', ''IN''] \<and> parseZuluHHMM text label = Some t
      \<longrightarrow> mm t \<le> 59 \<and> hh t \<le> 29)
   \<and> parseZuluHHMM ''OUT 2930Z'' ''OUT'' = Some \<lparr>hh = 29, mm = 30\<rparr>"
proof (intro conjI impI)
  assume h: "label \<in> set [''OUT'', ''OFF'', ''ON'', ''IN''] \<and> parseZuluHHMM text label = Some t"
  then obtain m where m: "reMatch (reZulu label) text = Some m"
    and t: "t = \<lparr>hh = natOfDigits (m ! 1), mm = natOfDigits (m ! 2)\<rparr>"
    by (auto simp: parseZuluHHMM_def split: option.splits)
  from allMatches_reZulu [OF reMatch_in_allMatches [OF m]] obtain a b c d where
    "inRange (CHR ''0'') (CHR ''2'') a" "isDigit b" "inRange (CHR ''0'') (CHR ''5'') c" "isDigit d"
    "m ! 1 = [a, b]" "m ! 2 = [c, d]" by blast
  then show "mm t \<le> 59" and "hh t \<le> 29"
    using t digit_pair_bound digit_pair_bound5 by auto
next
  show "parseZuluHHMM ''OUT 2930Z'' ''OUT'' = Some \<lparr>hh = 29, mm = 30\<rparr>"
    by code_simp
qed

theorem parseZuluHHMM_range_witness:
  "''OUT'' \<in> set [''OUT'', ''OFF'', ''ON'', ''IN'']
   \<and> parseZuluHHMM ''xx OUT 2930Z yy'' ''OUT'' = Some \<lparr>hh = 29, mm = 30\<rparr>
   \<and> mm \<lparr>hh = 29, mm = 30\<rparr> \<le> 59 \<and> hh \<lparr>hh = 29, mm = 30\<rparr> \<le> 29"
proof -
  have p: "parseZuluHHMM ''xx OUT 2930Z yy'' ''OUT'' = Some \<lparr>hh = 29, mm = 30\<rparr>"
    by code_simp
  show ?thesis
    using parseZuluHHMM_range [of "''OUT''" "''xx OUT 2930Z yy''" "\<lparr>hh = 29, mm = 30\<rparr>"] p
    by simp
qed

subsection \<open>The validation of the handler\<close>




text \<open>
  Claim C3 asks that a block time that is present and 0 be told apart from an absent one.
  The extractor does so, the validation does not: when the BLOCK pattern yields a token
  whose number is 0, the parsed block time is present and equal to 0, and the handler
  still lists \<^verbatim>\<open>block\<close> among the missing fields, because \<^verbatim>\<open>!parsed.block\<close> is true for 0
  as it is for \<^verbatim>\<open>null\<close>.
\<close>

theorem zero_block_reported_missing:
  assumes "truthyStr raw"
    and "truthyStr (blockToken (ofpText raw))"
    and "Number (the (blockToken (ofpText raw))) = 0"
  shows "block (parseOFP raw) = Some 0
         \<and> ''block'' \<in> set (missingFields (parseOFP raw))
         \<and> ingest AIRPORTS fetchReply raw pfMode
             = ParserMissingFields (missingFields (parseOFP raw)) (parseOFP raw)"
proof -
  have b: "block (parseOFP raw) = Some 0" using assms(2,3) by (simp add: parseOFP_block)
  then have m: "''block'' \<in> set (missingFields (parseOFP raw))"
    by (simp add: missingFields_def truthyNum_def)
  then have "missingFields (parseOFP raw) \<noteq> []" by auto
  then have "ingest AIRPORTS fetchReply raw pfMode
             = ParserMissingFields (missingFields (parseOFP raw)) (parseOFP raw)"
    using assms(1) by (simp add: ingest_def Let_def)
  with b m show ?thesis by simp
qed

lemma blockToken_zero: "blockToken ''BLOCK 0'' = Some ''0''"
  by code_simp

lemma ofpText_block0: "ofpText (Some ''BLOCK 0'') = ''BLOCK 0''"
  by (simp add: ofpText_def truthyStr_def)

lemma Number_zero: "Number ''0'' = 0"
  by (simp add: Number_def natOfDigits_def digitVal_def)

theorem zero_block_reported_missing_witness:
  "truthyStr (Some ''BLOCK 0'') \<and> truthyStr (blockToken (ofpText (Some ''BLOCK 0'')))
   \<and> Number (the (blockToken (ofpText (Some ''BLOCK 0'')))) = 0
   \<and> block (parseOFP (Some ''BLOCK 0'')) = Some 0
   \<and> ''block'' \<in> set (missingFields (parseOFP (Some ''BLOCK 0'')))"
proof -
  have t: "truthyStr (Some ''BLOCK 0'')" by (simp add: truthyStr_def)
  have k: "truthyStr (blockToken (ofpText (Some ''BLOCK 0'')))"
    by (simp add: ofpText_block0 blockToken_zero truthyStr_def)
  have n: "Number (the (blockToken (ofpText (Some ''BLOCK 0'')))) = 0"
    by (simp add: ofpText_block0 blockToken_zero Number_zero)
  from zero_block_reported_missing [OF t k n] t k n show ?thesis by simp
qed

text \<open>
  On the text \<^verbatim>\<open>BLOCK 0\<close> the first BLOCK pattern captures \<^verbatim>\<open>0\<close>, the block time is present
  and 0, and \<^verbatim>\<open>block\<close> is in the list of missing fields.
\<close>

theorem zero_block_counterexample:
  "reMatch reBlock1 ''BLOCK 0'' = Some [''BLOCK 0'', ''0'']
   \<and> block (parseOFP (Some ''BLOCK 0'')) = Some 0
   \<and> ''block'' \<in> set (missingFields (parseOFP (Some ''BLOCK 0'')))"
proof -
  have r: "reMatch reBlock1 ''BLOCK 0'' = Some [''BLOCK 0'', ''0'']" by code_simp
  have b: "block (parseOFP (Some ''BLOCK 0'')) = Some 0"
    by (simp add: parseOFP_block ofpText_block0 blockToken_zero Number_zero truthyStr_def)
  then have "''block'' \<in> set (missingFields (parseOFP (Some ''BLOCK 0'')))"
    by (simp add: missingFields_def truthyNum_def)
  with r b show ?thesis by simp
qed

lemma parseOFP_isoDate:
  "isoDate (parseOFP raw) =
     (let dateToken = orElse (grp 1 (reMatch reDate1 (ofpText raw))) (grp 1 (reMatch reDate2 (ofpText raw)))
      in if truthyStr dateToken then
           (if truthyStr (months (take 3 (drop 2 (the dateToken))))
            then Some (''20'' @ take 2 (drop 5 (the dateToken)) @ ''-''
                       @ the (months (take 3 (drop 2 (the dateToken)))) @ ''-'' @ take 2 (the dateToken))
            else None)
         else None)"
  by (simp add: parseOFP_def Let_def)

lemma parseOFP_airports:
  "orig (parseOFP raw) = grp 1 (reMatch (reAirport ''ORIG'') (ofpText raw))"
  "dest (parseOFP raw) = grp 1 (reMatch (reAirport ''DEST'') (ofpText raw))"
  "tail (parseOFP raw) = grp 0 (reMatch reTail (ofpText raw))"
  "route (parseOFP raw) =
     (if truthyStr (orig (parseOFP raw)) \<and> truthyStr (dest (parseOFP raw))
      then Some (the (orig (parseOFP raw)) @ '' '' @ the (dest (parseOFP raw))) else None)"
  by (simp_all add: parseOFP_def Let_def)

lemma text_zero_block:
  "ofpText (Some ''DATE 01JAN24 ORIG CYYZ DEST CYOW C-ABCD BLOCK 0 OUT 1400Z IN 1530Z'')
     = ''DATE 01JAN24 ORIG CYYZ DEST CYOW C-ABCD BLOCK 0 OUT 1400Z IN 1530Z''"
  by (simp add: ofpText_def truthyStr_def)

lemma zero_block_date:
  "reMatch reDate1 ''DATE 01JAN24 ORIG CYYZ DEST CYOW C-ABCD BLOCK 0 OUT 1400Z IN 1530Z''
     = Some [''DATE 01JAN24'', ''01JAN24'']"
  by code_simp

lemma zero_block_orig:
  "reMatch (reAirport ''ORIG'') ''DATE 01JAN24 ORIG CYYZ DEST CYOW C-ABCD BLOCK 0 OUT 1400Z IN 1530Z''
     = Some [''ORIG CYYZ'', ''CYYZ'']"
  by code_simp

lemma zero_block_dest:
  "reMatch (reAirport ''DEST'') ''DATE 01JAN24 ORIG CYYZ DEST CYOW C-ABCD BLOCK 0 OUT 1400Z IN 1530Z''
     = Some [''DEST CYOW'', ''CYOW'']"
  by code_simp

lemma zero_block_tail:
  "reMatch reTail ''DATE 01JAN24 ORIG CYYZ DEST CYOW C-ABCD BLOCK 0 OUT 1400Z IN 1530Z''
     = Some [''C-ABCD'']"
  by code_simp

lemma zero_block_token:
  "blockToken ''DATE 01JAN24 ORIG CYYZ DEST CYOW C-ABCD BLOCK 0 OUT 1400Z IN 1530Z'' = Some ''0''"
  by code_simp

lemma zero_block_out:
  "parseZuluHHMM ''DATE 01JAN24 ORIG CYYZ DEST CYOW C-ABCD BLOCK 0 OUT 1400Z IN 1530Z'' ''OUT''
     = Some \<lparr>hh = 14, mm = 0\<rparr>"
  by code_simp

lemma zero_block_in:
  "parseZuluHHMM ''DATE 01JAN24 ORIG CYYZ DEST CYOW C-ABCD BLOCK 0 OUT 1400Z IN 1530Z'' ''IN''
     = Some \<lparr>hh = 15, mm = 30\<rparr>"
  by code_simp

text \<open>
  A flight plan that gives every required field, with the block time 0: the parsed block
  time is 0 and the reply is \<^verbatim>\<open>ParserMissingFields\<close> with \<^verbatim>\<open>block\<close> as the one missing
  field.
\<close>

theorem zero_block_flight_rejected:
  "block (parseOFP (Some ''DATE 01JAN24 ORIG CYYZ DEST CYOW C-ABCD BLOCK 0 OUT 1400Z IN 1530Z'')) = Some 0
   \<and> ingest AIRPORTS fetchReply
        (Some ''DATE 01JAN24 ORIG CYYZ DEST CYOW C-ABCD BLOCK 0 OUT 1400Z IN 1530Z'') pfMode
      = ParserMissingFields [''block'']
          (parseOFP (Some ''DATE 01JAN24 ORIG CYYZ DEST CYOW C-ABCD BLOCK 0 OUT 1400Z IN 1530Z''))"
proof -
  let ?raw = "Some ''DATE 01JAN24 ORIG CYYZ DEST CYOW C-ABCD BLOCK 0 OUT 1400Z IN 1530Z''"
  have b: "block (parseOFP ?raw) = Some 0"
    by (simp add: parseOFP_block text_zero_block zero_block_token Number_zero truthyStr_def)
  have d: "isoDate (parseOFP ?raw) = Some ''2024-01-01''"
    by (simp add: parseOFP_isoDate text_zero_block zero_block_date orElse_def grp_def truthyStr_def
        months_def)
  have a: "orig (parseOFP ?raw) = Some ''CYYZ''" "dest (parseOFP ?raw) = Some ''CYOW''"
    "tail (parseOFP ?raw) = Some ''C-ABCD''"
    by (simp_all add: parseOFP_airports(1-3) text_zero_block zero_block_orig zero_block_dest
        zero_block_tail grp_def)
  have r: "route (parseOFP ?raw) = Some ''CYYZ CYOW''"
    by (simp add: parseOFP_airports(4) a truthyStr_def)
  have t: "out (times (parseOFP ?raw)) = Some \<lparr>hh = 14, mm = 0\<rparr>"
    "inT (times (parseOFP ?raw)) = Some \<lparr>hh = 15, mm = 30\<rparr>"
    by (simp_all add: parseOFP_times text_zero_block zero_block_out zero_block_in)
  have m: "missingFields (parseOFP ?raw) = [''block'']"
    by (simp add: missingFields_def b d a r t truthyStr_def truthyNum_def)
  have "ingest AIRPORTS fetchReply ?raw pfMode = ParserMissingFields [''block''] (parseOFP ?raw)"
    by (simp add: ingest_def Let_def m truthyStr_def)
  with b show ?thesis by simp
qed

subsection \<open>Night time of the block\<close>

lemma date_1400: "makeUtcDate ''2024-01-01'' \<lparr>hh = 14, mm = 0\<rparr> = Num 1704117600000"
  by code_simp

lemma diff_same_instant: "diffMinutesWithMidnightWrap (Num x) (Num x) = Num 0"
  by (simp add: diffMinutesWithMidnightWrap_def minutesOfDay_def getUTCHours_def getUTCMinutes_def)

lemma flightEx_fields:
  "isoDate (flightEx tOut tOn tIn) = Some ''2024-01-01''"
  "orig (flightEx tOut tOn tIn) = Some ''CYYZ''"
  "dest (flightEx tOut tOn tIn) = Some ''CYOW''"
  "out (times (flightEx tOut tOn tIn)) = Some tOut"
  "inT (times (flightEx tOut tOn tIn)) = Some tIn"
  "on (times (flightEx tOut tOn tIn)) = tOn"
  by (simp_all add: flightEx_def)

lemma airportsEx_lookup:
  "airportsEx ''CYYZ'' = Some \<lparr>lat = 43.6772, lon = - 79.6306\<rparr>"
  "airportsEx ''CYOW'' = Some \<lparr>lat = 45.3225, lon = - 75.6692\<rparr>"
  by (simp_all add: airportsEx_def)

text \<open>
  Claim C4, amended. When date, origin, destination, OUT and IN are present, both airports
  have coordinates and the computed block duration is not positive, the night computation
  returns night hours 0, not \<^verbatim>\<open>null\<close>, with the reason \<^verbatim>\<open>Non-positive block minutes\<close>:
  only the reason tells it from a computed zero, whose reason is \<^verbatim>\<open>ok\<close>.
\<close>

theorem non_positive_duration_gives_zero:
  assumes "truthyStr (isoDate p)" and "truthyStr (orig p)" and "truthyStr (dest p)"
    and "out (times p) = Some tOut" and "inT (times p) = Some tIn"
    and "AIRPORTS (the (orig p)) = Some a" and "AIRPORTS (the (dest p)) = Some b"
    and "diffMinutesWithMidnightWrap (makeUtcDate (the (isoDate p)) tOut)
           (makeUtcDate (the (isoDate p)) tIn) = Num d"
    and "d \<le> 0"
  shows "computeNightHours_BlockInterval AIRPORTS p twilightAltDeg
           = \<lparr>nightHours = Some 0, reason = ''Non-positive block minutes''\<rparr>"
  using assms by (simp add: computeNightHours_BlockInterval_def Let_def)

theorem non_positive_duration_gives_zero_witness:
  "computeNightHours_BlockInterval airportsEx
     (flightEx \<lparr>hh = 14, mm = 0\<rparr> None \<lparr>hh = 14, mm = 0\<rparr>) (- 6)
     = \<lparr>nightHours = Some 0, reason = ''Non-positive block minutes''\<rparr>"
proof -
  let ?p = "flightEx \<lparr>hh = 14, mm = 0\<rparr> None \<lparr>hh = 14, mm = 0\<rparr>"
  have d: "diffMinutesWithMidnightWrap (makeUtcDate (the (isoDate ?p)) \<lparr>hh = 14, mm = 0\<rparr>)
             (makeUtcDate (the (isoDate ?p)) \<lparr>hh = 14, mm = 0\<rparr>) = Num 0"
    by (simp add: flightEx_fields date_1400 diff_same_instant)
  show ?thesis
    by (rule non_positive_duration_gives_zero [OF _ _ _ _ _ _ _ d])
       (simp_all add: flightEx_fields airportsEx_lookup truthyStr_def)
qed

text \<open>
  Claim C4 as stated fails for OUT 1400 and IN 1400: the duration is 0 and the night hours
  returned are 0, not \<^verbatim>\<open>null\<close>.
\<close>

theorem zero_duration_not_null_counterexample:
  "diffMinutesWithMidnightWrap (makeUtcDate ''2024-01-01'' \<lparr>hh = 14, mm = 0\<rparr>)
     (makeUtcDate ''2024-01-01'' \<lparr>hh = 14, mm = 0\<rparr>) = Num 0
   \<and> nightHours (computeNightHours_BlockInterval airportsEx
        (flightEx \<lparr>hh = 14, mm = 0\<rparr> None \<lparr>hh = 14, mm = 0\<rparr>) (- 6)) = Some 0
   \<and> nightHours (computeNightHours_BlockInterval airportsEx
        (flightEx \<lparr>hh = 14, mm = 0\<rparr> None \<lparr>hh = 14, mm = 0\<rparr>) (- 6)) \<noteq> None"
  by (simp add: computeNightHours_BlockInterval_def flightEx_fields airportsEx_lookup
      truthyStr_def date_1400 diff_same_instant)

lemma below_mono: "t1 \<le> t2 \<Longrightarrow> below x t1 \<Longrightarrow> below x t2"
  by (cases x) (simp_all add: below_def)

lemma fold_count_mono:
  assumes "\<And>i. P i \<Longrightarrow> Q i" and "(n1::nat) \<le> n2"
  shows "fold (\<lambda>i n. if P i then n + 1 else n) xs n1 \<le> fold (\<lambda>i n. if Q i then n + 1 else n) xs n2"
  using assms(2)
proof (induction xs arbitrary: n1 n2)
  case Nil
  then show ?case by simp
next
  case (Cons x xs)
  show ?case using Cons.prems assms(1) [of x] by (auto intro!: Cons.IH)
qed

lemma fold_count_le: "fold (\<lambda>i n. if P i then n + 1 else n) xs (n0::nat) \<le> n0 + length xs"
proof (induction xs arbitrary: n0)
  case Nil
  then show ?case by simp
next
  case (Cons x xs)
  show ?case using Cons.IH [of "n0 + 1"] Cons.IH [of n0] by auto
qed

lemma nightMinLoop_mono:
  "t1 \<le> t2 \<Longrightarrow> nightMinLoop a b tOut totalMin t1 \<le> nightMinLoop a b tOut totalMin t2"
  unfolding nightMinLoop_def by (rule fold_count_mono) (auto elim: below_mono)

lemma nightMinLoop_le: "nightMinLoop a b tOut totalMin tw \<le> nat totalMin"
  unfolding nightMinLoop_def using fold_count_le [of _ "[0..<nat totalMin]" 0] by simp

lemma MathRound_mono: "x \<le> y \<Longrightarrow> MathRound x \<le> MathRound y"
  by (simp add: MathRound_def floor_mono)

text \<open>
  Claim C7. With the airports, the OUT instant and the duration fixed, the tally of night
  minutes does not decrease when the twilight threshold increases; neither do the night
  hours that \<^verbatim>\<open>computeNightHours_BlockInterval\<close> reports for a record.
\<close>

theorem night_minutes_monotone:
  assumes "t1 \<le> t2"
  shows "nightMinLoop a b tOut totalMin t1 \<le> nightMinLoop a b tOut totalMin t2
         \<and> rel_option (\<le>) (nightHours (computeNightHours_BlockInterval AIRPORTS p t1))
                             (nightHours (computeNightHours_BlockInterval AIRPORTS p t2))"
proof
  show "nightMinLoop a b tOut totalMin t1 \<le> nightMinLoop a b tOut totalMin t2"
    by (rule nightMinLoop_mono [OF assms])
next
  have r: "MathRound (real (nightMinLoop x y t d t1) / 60 * 10) / 10
            \<le> MathRound (real (nightMinLoop x y t d t2) / 60 * 10) / 10" for x y t d
    using nightMinLoop_mono [OF assms, of x y t d]
    by (intro divide_right_mono MathRound_mono mult_right_mono) simp_all
  show "rel_option (\<le>) (nightHours (computeNightHours_BlockInterval AIRPORTS p t1))
                          (nightHours (computeNightHours_BlockInterval AIRPORTS p t2))"
    using r by (simp add: computeNightHours_BlockInterval_def Let_def split: option.splits jsnum.splits)
qed

theorem night_minutes_monotone_witness:
  "(- 6 :: real) \<le> 0
   \<and> nightMinLoop \<lparr>lat = 43.6772, lon = - 79.6306\<rparr> \<lparr>lat = 45.3225, lon = - 75.6692\<rparr>
        (Num 1704117600000) 90 (- 6)
      \<le> nightMinLoop \<lparr>lat = 43.6772, lon = - 79.6306\<rparr> \<lparr>lat = 45.3225, lon = - 75.6692\<rparr>
           (Num 1704117600000) 90 0"
proof -
  have h: "(- 6 :: real) \<le> 0" by simp
  from night_minutes_monotone [OF h] h show ?thesis by blast
qed

lemma round_tenth:
  fixes x :: real
  shows "MathRound (x * 10) / 10 - 1 / 20 \<le> x \<and> x < MathRound (x * 10) / 10 + 1 / 20"
proof -
  have "real_of_int \<lfloor>x * 10 + 1 / 2\<rfloor> \<le> x * 10 + 1 / 2"
    and "x * 10 + 1 / 2 < real_of_int \<lfloor>x * 10 + 1 / 2\<rfloor> + 1" by linarith+
  then show ?thesis by (simp add: MathRound_def field_simps)
qed

text \<open>
  Claim C8. When the night computation runs with a block duration \<open>d > 0\<close>, the tally
  \<open>n\<close> of night minutes is a whole number from 0 to \<open>d\<close>, and the reported night hours
  are \<open>n / 60\<close> rounded to one decimal, halves upwards: they are \<open>k / 10\<close> for the whole
  number \<open>k\<close> with \<open>k / 10 - 1 / 20 \<le> n / 60 < k / 10 + 1 / 20\<close>.
\<close>

theorem night_minutes_within_block:
  assumes "truthyStr (isoDate p)" and "truthyStr (orig p)" and "truthyStr (dest p)"
    and "out (times p) = Some tOut" and "inT (times p) = Some tIn"
    and "AIRPORTS (the (orig p)) = Some a" and "AIRPORTS (the (dest p)) = Some b"
    and "diffMinutesWithMidnightWrap (makeUtcDate (the (isoDate p)) tOut)
           (makeUtcDate (the (isoDate p)) tIn) = Num d"
    and "0 < d"
  shows "\<exists>n k. n = nightMinLoop a b (makeUtcDate (the (isoDate p)) tOut) d twilightAltDeg
           \<and> int n \<le> d
           \<and> computeNightHours_BlockInterval AIRPORTS p twilightAltDeg
               = \<lparr>nightHours = Some (real_of_int k / 10), reason = ''ok''\<rparr>
           \<and> real_of_int k / 10 - 1 / 20 \<le> real n / 60
           \<and> real n / 60 < real_of_int k / 10 + 1 / 20"
proof -
  let ?n = "nightMinLoop a b (makeUtcDate (the (isoDate p)) tOut) d twilightAltDeg"
  let ?k = "\<lfloor>real ?n / 60 * 10 + 1 / 2\<rfloor>"
  have le: "int ?n \<le> d"
    using nightMinLoop_le [of a b "makeUtcDate (the (isoDate p)) tOut" d twilightAltDeg] assms(9)
    by simp
  have res: "computeNightHours_BlockInterval AIRPORTS p twilightAltDeg
               = \<lparr>nightHours = Some (real_of_int ?k / 10), reason = ''ok''\<rparr>"
    using assms by (simp add: computeNightHours_BlockInterval_def Let_def MathRound_def)
  from round_tenth [of "real ?n / 60"] have
    "real_of_int ?k / 10 - 1 / 20 \<le> real ?n / 60" "real ?n / 60 < real_of_int ?k / 10 + 1 / 20"
    by (simp_all add: MathRound_def)
  with le res show ?thesis by blast
qed

lemma date_1530: "makeUtcDate ''2024-01-01'' \<lparr>hh = 15, mm = 30\<rparr> = Num 1704123000000"
  by code_simp

lemma diff_1400_1530:
  "diffMinutesWithMidnightWrap (Num 1704117600000) (Num 1704123000000) = Num 90"
  by (simp add: diffMinutesWithMidnightWrap_def minutesOfDay_def getUTCHours_def getUTCMinutes_def
      msPerHour_def msPerMinute_def)

theorem night_minutes_within_block_witness:
  "\<exists>n k. n = nightMinLoop \<lparr>lat = 43.6772, lon = - 79.6306\<rparr> \<lparr>lat = 45.3225, lon = - 75.6692\<rparr>
               (Num 1704117600000) 90 (- 6)
     \<and> int n \<le> 90
     \<and> computeNightHours_BlockInterval airportsEx
          (flightEx \<lparr>hh = 14, mm = 0\<rparr> None \<lparr>hh = 15, mm = 30\<rparr>) (- 6)
         = \<lparr>nightHours = Some (real_of_int k / 10), reason = ''ok''\<rparr>
     \<and> real_of_int k / 10 - 1 / 20 \<le> real n / 60
     \<and> real n / 60 < real_of_int k / 10 + 1 / 20"
proof -
  let ?p = "flightEx \<lparr>hh = 14, mm = 0\<rparr> None \<lparr>hh = 15, mm = 30\<rparr>"
  have d: "diffMinutesWithMidnightWrap (makeUtcDate (the (isoDate ?p)) \<lparr>hh = 14, mm = 0\<rparr>)
             (makeUtcDate (the (isoDate ?p)) \<lparr>hh = 15, mm = 30\<rparr>) = Num 90"
    by (simp add: flightEx_fields date_1400 date_1530 diff_1400_1530)
  have "truthyStr (isoDate ?p)" "truthyStr (orig ?p)" "truthyStr (dest ?p)"
    "out (times ?p) = Some \<lparr>hh = 14, mm = 0\<rparr>" "inT (times ?p) = Some \<lparr>hh = 15, mm = 30\<rparr>"
    "airportsEx (the (orig ?p)) = Some \<lparr>lat = 43.6772, lon = - 79.6306\<rparr>"
    "airportsEx (the (dest ?p)) = Some \<lparr>lat = 45.3225, lon = - 75.6692\<rparr>"
    by (simp_all add: flightEx_fields airportsEx_lookup truthyStr_def)
  from night_minutes_within_block [OF this d, of "- 6"]
  show ?thesis by (simp add: flightEx_fields date_1400)
qed

lemma altitudeOfCosZenith_range:
  "- 1 \<le> clamp c (- 1) 1 \<and> clamp c (- 1) 1 \<le> 1
   \<and> - 90 \<le> altitudeOfCosZenith c \<and> altitudeOfCosZenith c \<le> 90"
proof -
  let ?c = "clamp c (- 1) 1"
  have c: "- 1 \<le> ?c" "?c \<le> 1" by (simp_all add: clamp_def)
  have z: "0 \<le> arccos ?c" "arccos ?c \<le> pi"
    using c by (simp_all add: arccos_lbound arccos_ubound)
  have "0 \<le> rad2deg (arccos ?c)" using z(1) by (simp add: rad2deg_def)
  moreover have "rad2deg (arccos ?c) \<le> 180"
    using z(2) by (simp add: rad2deg_def field_simps)
  ultimately show ?thesis using c by (simp add: altitudeOfCosZenith_def Let_def)
qed

lemma in_range_no_overflow:
  assumes "- 90 \<le> latDeg" "latDeg \<le> 90" "- 180 \<le> lonDeg" "lonDeg \<le> 180"
  shows "\<not> overflows (latDeg * piDouble) \<and> \<not> overflows (4 * lonDeg)"
proof -
  have p: "0 \<le> piDouble" "piDouble \<le> 4" by (simp_all add: piDouble_def)
  have "\<bar>latDeg * piDouble\<bar> = \<bar>latDeg\<bar> * piDouble" using p(1) by (simp add: abs_mult)
  also have "\<dots> \<le> 90 * 4" using assms(1,2) p by (intro mult_mono) auto
  finally have a: "\<bar>latDeg * piDouble\<bar> \<le> 360" by simp
  have b: "\<bar>4 * lonDeg\<bar> \<le> 720" using assms(3,4) by simp
  have big: "(720::real) < 2 ^ 1024 - 2 ^ 970" by simp
  from a b big show ?thesis unfolding overflows_def by linarith
qed

text \<open>
  Claim C9, amended. For every valid instant and every latitude and longitude whose
  products \<^verbatim>\<open>latDeg * Math.PI\<close> and \<^verbatim>\<open>4 * lonDeg\<close> stay within the range of doubles (as
  those of every point with latitude from -90 to 90 and longitude from -180 to 180 do),
  \<^verbatim>\<open>solarAltitudeDeg\<close> returns a number from -90 to 90: whatever number the
  cosine-of-zenith expression yields, it is clamped to the interval from -1 to 1 before
  \<^verbatim>\<open>Math.acos\<close>, and the altitude computed from it lies between -90 and 90.
\<close>

theorem solar_altitude_range:
  assumes "\<bar>ms\<bar> \<le> 8640000000000000"
    and "\<not> overflows (latDeg * piDouble)" and "\<not> overflows (4 * lonDeg)"
  shows "(\<exists>altitude. solarAltitudeDeg (Num ms) latDeg lonDeg = Num altitude
            \<and> - 90 \<le> altitude \<and> altitude \<le> 90)
         \<and> solarAltitudeDeg (Num ms) latDeg lonDeg = Num (altitudeOfCosZenith (cosZenith ms latDeg lonDeg))
         \<and> (\<forall>c. - 1 \<le> clamp c (- 1) 1 \<and> clamp c (- 1) 1 \<le> 1
                \<and> - 90 \<le> altitudeOfCosZenith c \<and> altitudeOfCosZenith c \<le> 90)"
  using assms altitudeOfCosZenith_range by (simp add: solarAltitudeDeg_def)

theorem solar_altitude_range_witness:
  "\<bar>1704117600000 :: int\<bar> \<le> 8640000000000000
   \<and> \<not> overflows (45.3225 * piDouble) \<and> \<not> overflows (4 * (- 75.6692))
   \<and> (\<exists>altitude. solarAltitudeDeg (Num 1704117600000) 45.3225 (- 75.6692) = Num altitude
          \<and> - 90 \<le> altitude \<and> altitude \<le> 90)"
proof -
  have h: "\<not> overflows (45.3225 * piDouble) \<and> \<not> overflows (4 * (- 75.6692))"
    by (rule in_range_no_overflow) simp_all
  have v: "\<bar>1704117600000 :: int\<bar> \<le> 8640000000000000" by simp
  from solar_altitude_range [where latDeg = "45.3225" and lonDeg = "- 75.6692", OF v] h v
  show ?thesis by blast
qed

lemma solarAltitudeDeg_NaN: "solarAltitudeDeg NaN latDeg lonDeg = NaN"
  by (simp add: solarAltitudeDeg_def)

lemma lessNum_NaN: "lessNum NaN y = False"
  by (simp add: lessNum_def)

lemma minutesOfDay_NaN: "minutesOfDay NaN = NaN"
  by (simp add: minutesOfDay_def getUTCHours_def getUTCMinutes_def)

text \<open>
  Claim C9 as stated fails in two ways. At the valid instant 0 and the longitude
  \<open>10 ^ 308\<close> the product \<^verbatim>\<open>4 * lonDeg\<close> is \<^verbatim>\<open>Infinity\<close> and the result is \<^verbatim>\<open>NaN\<close>. And
  for \<^verbatim>\<open>ON 2930Z\<close> the landing instant that \<^verbatim>\<open>computeLandingDayNight\<close> hands over is an
  Invalid Date, for which the altitude and the reported \<^verbatim>\<open>sunAltDeg\<close> are \<^verbatim>\<open>NaN\<close>.
\<close>

theorem solar_altitude_nan_counterexample:
  "solarAltitudeDeg (Num 0) 0 (10 ^ 308) = NaN
   \<and> parseZuluHHMM ''ON 2930Z'' ''ON'' = Some \<lparr>hh = 29, mm = 30\<rparr>
   \<and> landingInstant (flightEx \<lparr>hh = 14, mm = 0\<rparr> (Some \<lparr>hh = 29, mm = 30\<rparr>) \<lparr>hh = 15, mm = 30\<rparr>)
        \<lparr>hh = 29, mm = 30\<rparr> = NaN
   \<and> solarAltitudeDeg NaN 45.3225 (- 75.6692) = NaN
   \<and> sunAltDeg (computeLandingDayNight airportsEx
        (flightEx \<lparr>hh = 14, mm = 0\<rparr> (Some \<lparr>hh = 29, mm = 30\<rparr>) \<lparr>hh = 15, mm = 30\<rparr>) (- 6))
      = Some NaN"
proof -
  let ?p = "flightEx \<lparr>hh = 14, mm = 0\<rparr> (Some \<lparr>hh = 29, mm = 30\<rparr>) \<lparr>hh = 15, mm = 30\<rparr>"
  have o: "overflows (4 * 10 ^ 308)" by (simp add: overflows_def)
  have a: "solarAltitudeDeg (Num 0) 0 (10 ^ 308) = NaN" using o by (simp add: solarAltitudeDeg_def)
  have b: "parseZuluHHMM ''ON 2930Z'' ''ON'' = Some \<lparr>hh = 29, mm = 30\<rparr>" by code_simp
  have i: "landingInstant ?p \<lparr>hh = 29, mm = 30\<rparr> = NaN"
    by (simp add: landingInstant_def flightEx_fields date_2930 minutesOfDay_NaN lessNum_NaN)
  have n: "solarAltitudeDeg NaN 45.3225 (- 75.6692) = NaN" by (rule solarAltitudeDeg_NaN)
  have s: "sunAltDeg (computeLandingDayNight airportsEx ?p (- 6)) = Some NaN"
    by (simp add: computeLandingDayNight_def Let_def i solarAltitudeDeg_NaN flightEx_fields
        airportsEx_lookup truthyStr_def)
  from a b i n s show ?thesis by simp
qed

subsection \<open>Great-circle interpolation of equal points\<close>

text \<open>
  Claim C6 is about doubles. In exact arithmetic the dot product of a point with itself is
  1, the angle is 0 and the guard returns the first point:
\<close>

lemma slerpLatLon_same_point_exact:
  "slerpLatLon lat1 lon1 lat1 lon1 f = \<lparr>lat = lat1, lon = lon1\<rparr>"
proof -
  let ?p = "deg2rad lat1" and ?l = "deg2rad lon1"
  have "cos ?p * cos ?l * (cos ?p * cos ?l) + cos ?p * sin ?l * (cos ?p * sin ?l) + sin ?p * sin ?p
          = cos ?p * cos ?p * (cos ?l * cos ?l + sin ?l * sin ?l) + sin ?p * sin ?p"
    by (simp only: distrib_left mult.assoc mult.left_commute)
  also have "\<dots> = cos ?p * cos ?p + sin ?p * sin ?p" by (simp only: sin_cos_squared_add3 mult_1_right)
  also have "\<dots> = 1" by (rule sin_cos_squared_add3)
  finally have d: "cos ?p * cos ?l * (cos ?p * cos ?l) + cos ?p * sin ?l * (cos ?p * sin ?l)
                     + sin ?p * sin ?p = 1" .
  show ?thesis
    unfolding slerpLatLon_def Let_def d by (simp add: clamp_def)
qed

text \<open>
  The guard compares the angle with \<open>1 / 10 ^ 10\<close>. A dot product that rounding has put
  at or below \<open>1 - 1 / 2 ^ 53\<close>, the double next below 1, has an angle that is not below
  that bound, so in doubles the guard is met only by a dot product that rounds to 1 or more:
\<close>

lemma cos_lower_bound:
  fixes w :: real
  assumes "0 \<le> w" and "w \<le> 1"
  shows "1 - w\<^sup>2 / 2 \<le> cos w"
proof -
  have h: "0 \<le> w / 2" "w / 2 \<le> pi" using assms pi_ge_two by simp_all
  have s0: "0 \<le> sin (w / 2)" using h by (rule sin_ge_zero)
  have s1: "sin (w / 2) \<le> w / 2" using h(1) by (rule sin_x_le_x)
  have "(sin (w / 2))\<^sup>2 \<le> (w / 2)\<^sup>2" using s0 s1 by (intro power_mono) auto
  moreover have "cos w = 1 - 2 * (sin (w / 2))\<^sup>2"
    using cos_double [of "w / 2"] sin_cos_squared_add [of "w / 2"] by simp
  ultimately show ?thesis by (simp add: power2_eq_square)
qed

lemma slerp_guard_resolution:
  assumes "- 1 \<le> d" and "d \<le> 1 - 1 / 2 ^ 53"
  shows "\<not> arccos (clamp d (- 1) 1) < 1 / 10 ^ 10"
proof
  assume a: "arccos (clamp d (- 1) 1) < 1 / 10 ^ 10"
  have c: "clamp d (- 1) 1 = d" using assms by (simp add: clamp_def)
  define w where "w = arccos d"
  have d1: "d \<le> 1" using assms(2) by simp
  have w: "0 \<le> w" "w < 1 / 10 ^ 10" using a c assms(1) d1 by (simp_all add: w_def arccos_lbound)
  have w1: "w \<le> 1" using w(2) by simp
  have "d = cos w" using assms(1) d1 by (simp add: w_def cos_arccos)
  with cos_lower_bound [OF w(1) w1] assms(2) have "1 / 2 ^ 53 \<le> w\<^sup>2 / 2" by linarith
  moreover have "w\<^sup>2 \<le> (1 / 10 ^ 10)\<^sup>2" using w by (intro power_mono) auto
  ultimately show False by (simp add: power2_eq_square)
qed

subsection \<open>The landing instant\<close>

lemma day_of_instant:
  assumes "h \<le> 23" "m \<le> 59"
  shows "(day * msPerDay + (int h * msPerHour + int m * msPerMinute)) div msPerDay = day"
proof -
  have "0 \<le> int h * 3600000 + int m * 60000" "int h * 3600000 + int m * 60000 < 86400000"
    using assms by simp_all
  then show ?thesis
    by (simp add: msPerDay_def msPerHour_def msPerMinute_def div_pos_pos_trivial)
qed

lemma minutesOfDay_valid:
  assumes "makeUtcDate ds t = Num a" "hh t \<le> 23"
  shows "minutesOfDay (makeUtcDate ds t) = Num (int (hh t * 60 + mm t))"
proof -
  from makeUtcDate_Num [OF assms(1)] have "mm t \<le> 59" by blast
  with assms(2) have "int (hh t) * 60 + int (mm t) < 1440" by simp
  then have "(int (hh t) * 60 + int (mm t)) mod 1440 = int (hh t) * 60 + int (mm t)"
    by (simp add: mod_pos_pos_trivial)
  then show ?thesis using minutesOfDay_makeUtcDate [OF assms(1)] by simp
qed

text \<open>
  Claim C5, amended. For a record with a date, destination coordinates, a landing clock
  time (ON, or IN when ON is absent) and an OUT time, both with an hour up to 23 and giving
  valid instants on the date: when the landing clock time is earlier in the day than the
  OUT clock time, the instant that is classified is the landing clock time on the day
  after the date. OUT 2350 and landing 0010 on 1 January give 2 January, 00:10.
\<close>

theorem landing_after_midnight_next_day:
  assumes "truthyStr (isoDate p)" and "truthyStr (dest p)"
    and "AIRPORTS (the (dest p)) = Some destCoord"
    and "(case on (times p) of Some t \<Rightarrow> Some t | None \<Rightarrow> inT (times p)) = Some landingHHMM"
    and "out (times p) = Some outHHMM"
    and "makeUtcDate (the (isoDate p)) landingHHMM = Num ms"
    and "makeUtcDate (the (isoDate p)) outHHMM \<noteq> NaN"
    and "hh landingHHMM \<le> 23" and "hh outHHMM \<le> 23"
    and "hh landingHHMM * 60 + mm landingHHMM < hh outHHMM * 60 + mm outHHMM"
  shows "landingInstant p landingHHMM = Num (ms + msPerDay)
         \<and> (\<exists>day. parseDate (the (isoDate p)) = Some day \<and> (ms + msPerDay) div msPerDay = day + 1)
         \<and> computeLandingDayNight AIRPORTS p twilightAltDeg
             = \<lparr>isNightLanding =
                  Some (below (solarAltitudeDeg (Num (ms + msPerDay)) (lat destCoord) (lon destCoord))
                              twilightAltDeg),
                reasonL = ''ok'',
                sunAltDeg = Some (solarAltitudeDeg (Num (ms + msPerDay)) (lat destCoord) (lon destCoord))\<rparr>"
proof -
  from assms(7) obtain a where o: "makeUtcDate (the (isoDate p)) outHHMM = Num a"
    by (cases "makeUtcDate (the (isoDate p)) outHHMM") auto
  have lm: "minutesOfDay (makeUtcDate (the (isoDate p)) landingHHMM)
              = Num (int (hh landingHHMM * 60 + mm landingHHMM))"
    by (rule minutesOfDay_valid [OF assms(6,8)])
  have om: "minutesOfDay (makeUtcDate (the (isoDate p)) outHHMM)
              = Num (int (hh outHHMM * 60 + mm outHHMM))"
    by (rule minutesOfDay_valid [OF o assms(9)])
  have less: "lessNum (minutesOfDay (makeUtcDate (the (isoDate p)) landingHHMM))
                      (minutesOfDay (makeUtcDate (the (isoDate p)) outHHMM))"
    unfolding lm om lessNum_def using assms(10) by simp
  have inst: "landingInstant p landingHHMM = Num (ms + msPerDay)"
    using less assms(5) by (simp add: landingInstant_def Let_def assms(6) addOneUTCDate_def)
  from makeUtcDate_Num [OF assms(6)] obtain day where
    day: "parseDate (the (isoDate p)) = Some day"
    and ms: "ms = day * msPerDay + (int (hh landingHHMM) * msPerHour + int (mm landingHHMM) * msPerMinute)"
    and m59: "mm landingHHMM \<le> 59" by blast
  have "ms div msPerDay = day" unfolding ms by (rule day_of_instant [OF assms(8) m59])
  then have nd: "(ms + msPerDay) div msPerDay = day + 1" by (simp add: msPerDay_def)
  have res: "computeLandingDayNight AIRPORTS p twilightAltDeg
             = \<lparr>isNightLanding =
                  Some (below (solarAltitudeDeg (Num (ms + msPerDay)) (lat destCoord) (lon destCoord))
                              twilightAltDeg),
                reasonL = ''ok'',
                sunAltDeg = Some (solarAltitudeDeg (Num (ms + msPerDay)) (lat destCoord) (lon destCoord))\<rparr>"
    using assms(1-4) by (simp add: computeLandingDayNight_def Let_def inst)
  from inst day nd res show ?thesis by blast
qed

lemma date_parse_ex: "parseDate ''2024-01-01'' = Some 19723"
  by code_simp

theorem landing_after_midnight_next_day_witness:
  "landingInstant (flightEx \<lparr>hh = 23, mm = 50\<rparr> (Some \<lparr>hh = 0, mm = 10\<rparr>) \<lparr>hh = 0, mm = 20\<rparr>)
     \<lparr>hh = 0, mm = 10\<rparr> = Num (1704067800000 + msPerDay)
   \<and> parseDate ''2024-01-01'' = Some 19723
   \<and> (1704067800000 + msPerDay) div msPerDay = 19723 + 1"
proof -
  let ?p = "flightEx \<lparr>hh = 23, mm = 50\<rparr> (Some \<lparr>hh = 0, mm = 10\<rparr>) \<lparr>hh = 0, mm = 20\<rparr>"
  have h: "truthyStr (isoDate ?p)" "truthyStr (dest ?p)"
    "airportsEx (the (dest ?p)) = Some \<lparr>lat = 45.3225, lon = - 75.6692\<rparr>"
    "(case on (times ?p) of Some t \<Rightarrow> Some t | None \<Rightarrow> inT (times ?p)) = Some \<lparr>hh = 0, mm = 10\<rparr>"
    "out (times ?p) = Some \<lparr>hh = 23, mm = 50\<rparr>"
    "makeUtcDate (the (isoDate ?p)) \<lparr>hh = 0, mm = 10\<rparr> = Num 1704067800000"
    "makeUtcDate (the (isoDate ?p)) \<lparr>hh = 23, mm = 50\<rparr> \<noteq> NaN"
    "hh \<lparr>hh = 0, mm = 10\<rparr> \<le> 23" "hh \<lparr>hh = 23, mm = 50\<rparr> \<le> 23"
    "hh \<lparr>hh = 0, mm = 10\<rparr> * 60 + mm \<lparr>hh = 0, mm = 10\<rparr>
       < hh \<lparr>hh = 23, mm = 50\<rparr> * 60 + mm \<lparr>hh = 23, mm = 50\<rparr>"
    by (simp_all add: flightEx_fields airportsEx_lookup truthyStr_def date_0010 date_2350)
  from landing_after_midnight_next_day
         [where twilightAltDeg = "- 6" and p = ?p and AIRPORTS = airportsEx, OF h]
  show ?thesis by (simp add: flightEx_fields date_parse_ex)
qed

text \<open>
  Claim C5 as stated fails when the OUT hour is from 24 to 29: for \<^verbatim>\<open>OUT 2930Z\<close> and
  \<^verbatim>\<open>ON 0010Z\<close> the landing clock value is the smaller one, but the OUT instant is an
  Invalid Date, the comparison with \<^verbatim>\<open>NaN\<close> is false and the landing stays on the date
  itself (day 19723, 1 January 2024).
\<close>

theorem landing_out_hour_29_counterexample:
  "parseZuluHHMM ''OUT 2930Z ON 0010Z'' ''OUT'' = Some \<lparr>hh = 29, mm = 30\<rparr>
   \<and> parseZuluHHMM ''OUT 2930Z ON 0010Z'' ''ON'' = Some \<lparr>hh = 0, mm = 10\<rparr>
   \<and> hh \<lparr>hh = 0, mm = 10\<rparr> * 60 + mm \<lparr>hh = 0, mm = 10\<rparr>
        < hh \<lparr>hh = 29, mm = 30\<rparr> * 60 + mm \<lparr>hh = 29, mm = 30\<rparr>
   \<and> landingInstant (flightEx \<lparr>hh = 29, mm = 30\<rparr> (Some \<lparr>hh = 0, mm = 10\<rparr>) \<lparr>hh = 0, mm = 20\<rparr>)
        \<lparr>hh = 0, mm = 10\<rparr> = Num 1704067800000
   \<and> parseDate ''2024-01-01'' = Some 19723
   \<and> 1704067800000 div msPerDay = 19723
   \<and> sunAltDeg (computeLandingDayNight airportsEx
        (flightEx \<lparr>hh = 29, mm = 30\<rparr> (Some \<lparr>hh = 0, mm = 10\<rparr>) \<lparr>hh = 0, mm = 20\<rparr>) (- 6))
      = Some (solarAltitudeDeg (Num 1704067800000) 45.3225 (- 75.6692))"
proof -
  let ?p = "flightEx \<lparr>hh = 29, mm = 30\<rparr> (Some \<lparr>hh = 0, mm = 10\<rparr>) \<lparr>hh = 0, mm = 20\<rparr>"
  have a: "parseZuluHHMM ''OUT 2930Z ON 0010Z'' ''OUT'' = Some \<lparr>hh = 29, mm = 30\<rparr>" by code_simp
  have b: "parseZuluHHMM ''OUT 2930Z ON 0010Z'' ''ON'' = Some \<lparr>hh = 0, mm = 10\<rparr>" by code_simp
  have n: "minutesOfDay NaN = NaN"
    by (simp add: minutesOfDay_def getUTCHours_def getUTCMinutes_def)
  have l: "lessNum x NaN = False" for x by (cases x) (simp_all add: lessNum_def)
  have i: "landingInstant ?p \<lparr>hh = 0, mm = 10\<rparr> = Num 1704067800000"
    by (simp add: landingInstant_def flightEx_fields date_0010 date_2930 n l)
  have d: "(1704067800000::int) div msPerDay = 19723" by (simp add: msPerDay_def)
  have s: "sunAltDeg (computeLandingDayNight airportsEx ?p (- 6))
      = Some (solarAltitudeDeg (Num 1704067800000) 45.3225 (- 75.6692))"
    by (simp add: computeLandingDayNight_def Let_def i flightEx_fields airportsEx_lookup truthyStr_def)
  from a b i d s show ?thesis by (simp add: date_parse_ex)
qed

end
